theory Spec2Isabelle
  imports Main "HOL-Library.Sublist"
begin

section \<open>The replace package of F2: a shallow embedding\<close>

text \<open>
  Go strings are byte sequences; they are modelled as \<open>string\<close> (a list of 8-bit
  characters).  Go's \<open>int\<close> is modelled as \<open>int\<close>: the only arithmetic the package
  performs on it is \<open>len(matches) + limit\<close> with a negative limit and counters bounded by
  the number of matches, neither of which can leave the 64-bit range.
\<close>

section \<open>Errors\<close>

text \<open>
  An \<open>error\<close> value: the package's own \<open>errInvalidSubmatches\<close>, the errors of
  \<open>strconv.Atoi\<close> and \<open>regexp.Compile\<close>, and the errors of the collaborators outside the
  package.  A function of the package either returns, possibly with an error, or panics;
  \<open>Error e\<close> is the return of the error \<open>e\<close>, \<open>Panic e\<close> is \<open>panic(e)\<close>, and
  \<open>IndexOutOfRange i n\<close> is the runtime panic of reading index \<open>i\<close> of a slice of length
  \<open>n\<close>.
\<close>

datatype err =
    errInvalidSubmatches
  | ErrSyntax string
  | ErrRange string
  | ErrCompile string
  | ErrCollaborator string

datatype failure = Error err | Panic err | IndexOutOfRange nat nat

section \<open>The Go library functions the package calls\<close>

subsection \<open>strconv.Atoi\<close>

text \<open>
  An optional sign followed by decimal digits.  The digits are read left to right; a
  character that is no digit is a syntax error, a value that leaves the unsigned 64-bit
  range is a range error at the digit where it does, and so is a result outside the signed
  64-bit range.
\<close>

definition digit :: "char \<Rightarrow> int option" where
  "digit c = (let n = of_char c :: int in if 48 \<le> n \<and> n \<le> 57 then Some (n - 48) else None)"

fun ParseUint :: "string \<Rightarrow> string \<Rightarrow> int \<Rightarrow> err + int" where
  "ParseUint s0 [] n = Inr n"
| "ParseUint s0 (c # cs) n =
     (case digit c of
        None \<Rightarrow> Inl (ErrSyntax s0)
      | Some d \<Rightarrow>
          if n \<ge> 2 ^ 64 div 10 + 1 then Inl (ErrRange s0)
          else if n * 10 + d \<ge> 2 ^ 64 then Inl (ErrRange s0)
          else ParseUint s0 cs (n * 10 + d))"

definition Atoi :: "string \<Rightarrow> err + int" where
  "Atoi s =
     (if s = [] then Inl (ErrSyntax s)
      else
        (let neg = (hd s = CHR ''-'');
             body = (if hd s = CHR ''+'' \<or> hd s = CHR ''-'' then tl s else s)
         in if body = [] then Inl (ErrSyntax s)
            else
              (case ParseUint s body 0 of
                 Inl e \<Rightarrow> Inl e
               | Inr un \<Rightarrow>
                   if \<not> neg \<and> un \<ge> 2 ^ 63 then Inl (ErrRange s)
                   else if neg \<and> un > 2 ^ 63 then Inl (ErrRange s)
                   else Inr (if neg then - un else un))))"

subsection \<open>strings.Split and strings.Contains\<close>

text \<open>The package splits on, and looks for, the one-character separators ; and - only.\<close>

fun Split :: "string \<Rightarrow> char \<Rightarrow> string list" where
  "Split [] sep = [[]]"
| "Split (c # cs) sep =
     (if c = sep then [] # Split cs sep
      else (case Split cs sep of [] \<Rightarrow> [[c]] | x # xs \<Rightarrow> (c # x) # xs))"

definition Contains :: "string \<Rightarrow> char \<Rightarrow> bool" where
  "Contains s sep \<longleftrightarrow> sep \<in> set s"

subsection \<open>Conversions between int and float64\<close>

text \<open>
  \<open>float64(n)\<close> is the double nearest to the integer \<open>n\<close>, ties going to the even
  significand of 53 bits; its value is again an integer and is what \<open>float64 n\<close> denotes.
  Up to \<open>2 ^ 53\<close> in magnitude the conversion is exact.  \<open>int(f)\<close> of an integral double
  is that integer when it fits 64 bits; otherwise the language leaves the result to the
  implementation, and the value taken here is that of amd64, the most negative integer.
\<close>

fun bitlen :: "int \<Rightarrow> nat" where
  "bitlen n = (if n \<le> 0 then 0 else Suc (bitlen (n div 2)))"

declare bitlen.simps [simp del]

definition float64 :: "int \<Rightarrow> int" where
  "float64 n =
     (let a = \<bar>n\<bar>;
          e = bitlen a - 53;
          q = a div 2 ^ e;
          r = a mod 2 ^ e;
          half = 2 ^ (e - 1);
          q' = (if r > half \<or> (r = half \<and> odd q) then q + 1 else q)
      in sgn n * (q' * 2 ^ e))"

definition int_of_float64 :: "int \<Rightarrow> int" where
  "int_of_float64 f = (if - (2 ^ 63) \<le> f \<and> f < 2 ^ 63 then f else - (2 ^ 63))"

subsection \<open>Paths: filepath.Ext, filepath.Clean, filepath.Join\<close>

text \<open>
  Paths are those of a Unix system: the separator is the slash and there is no volume
  name.  \<open>Ext\<close> scans from the end of the path for a dot and stops at a separator.
\<close>

fun extScan :: "string \<Rightarrow> string \<Rightarrow> string" where
  "extScan [] acc = []"
| "extScan (c # cs) acc =
     (if c = CHR ''/'' then []
      else if c = CHR ''.'' then c # acc
      else extScan cs (c # acc))"

definition Ext :: "string \<Rightarrow> string" where
  "Ext path = extScan (rev path) []"

text \<open>
  \<open>Clean\<close> works through the elements of the path: empty elements and \<open>.\<close> are dropped,
  \<open>..\<close> removes the element before it when there is one to remove, is kept at the start
  of a relative path and dropped at the start of a rooted one.  The empty result is \<open>.\<close>.
\<close>

fun joinSlash :: "string list \<Rightarrow> string" where
  "joinSlash [] = []"
| "joinSlash [e] = e"
| "joinSlash (e # es) = e @ CHR ''/'' # joinSlash es"

fun cleanElems :: "bool \<Rightarrow> string list \<Rightarrow> string list \<Rightarrow> string list" where
  "cleanElems rooted [] out = rev out"
| "cleanElems rooted (e # es) out =
     (if e = [] \<or> e = ''.'' then cleanElems rooted es out
      else if e = ''..'' then
        (case out of
           [] \<Rightarrow> if rooted then cleanElems rooted es [] else cleanElems rooted es [''..'']
         | t # ts \<Rightarrow>
             if t = ''..'' then cleanElems rooted es (''..'' # out)
             else cleanElems rooted es ts)
      else cleanElems rooted es (e # out))"

definition Clean :: "string \<Rightarrow> string" where
  "Clean path =
     (if path = [] then ''.''
      else
        (let rooted = (hd path = CHR ''/'');
             out = cleanElems rooted (Split path CHR ''/'') []
         in if rooted then CHR ''/'' # joinSlash out
            else if out = [] then ''.'' else joinSlash out))"

text \<open>\<open>Join\<close> ignores empty elements, joins the others with the separator and cleans.\<close>

definition Join :: "string list \<Rightarrow> string" where
  "Join elem =
     (let nonEmpty = filter (\<lambda>e. e \<noteq> []) elem
      in if nonEmpty = [] then [] else Clean (joinSlash nonEmpty))"

subsection \<open>strings.TrimSpace\<close>

text \<open>
  The white space of Unicode in its UTF-8 encoding: the six ASCII characters, U+0085,
  U+00A0, U+1680, U+2000 to U+200A, U+2028, U+2029, U+202F, U+205F and U+3000.
  \<open>TrimSpace\<close> removes the white space at the start and then at the end.
\<close>

definition whiteSpace :: "string list" where
  "whiteSpace =
     [[CHR 0x09], [CHR 0x0A], [CHR 0x0B], [CHR 0x0C], [CHR 0x0D], [CHR 0x20],
      [CHR 0xC2, CHR 0x85], [CHR 0xC2, CHR 0xA0], [CHR 0xE1, CHR 0x9A, CHR 0x80],
      [CHR 0xE2, CHR 0x80, CHR 0x80], [CHR 0xE2, CHR 0x80, CHR 0x81],
      [CHR 0xE2, CHR 0x80, CHR 0x82], [CHR 0xE2, CHR 0x80, CHR 0x83],
      [CHR 0xE2, CHR 0x80, CHR 0x84], [CHR 0xE2, CHR 0x80, CHR 0x85],
      [CHR 0xE2, CHR 0x80, CHR 0x86], [CHR 0xE2, CHR 0x80, CHR 0x87],
      [CHR 0xE2, CHR 0x80, CHR 0x88], [CHR 0xE2, CHR 0x80, CHR 0x89],
      [CHR 0xE2, CHR 0x80, CHR 0x8A], [CHR 0xE2, CHR 0x80, CHR 0xA8],
      [CHR 0xE2, CHR 0x80, CHR 0xA9], [CHR 0xE2, CHR 0x80, CHR 0xAF],
      [CHR 0xE2, CHR 0x81, CHR 0x9F], [CHR 0xE3, CHR 0x80, CHR 0x80]]"

definition spaceAt :: "string list \<Rightarrow> string \<Rightarrow> nat" where
  "spaceAt ws s = (case filter (\<lambda>w. prefix w s) ws of [] \<Rightarrow> 0 | w # _ \<Rightarrow> length w)"

function trimLeading :: "string list \<Rightarrow> string \<Rightarrow> string" where
  "trimLeading ws s =
     (if spaceAt ws s = 0 \<or> s = [] then s else trimLeading ws (drop (spaceAt ws s) s))"
  by pat_completeness auto
termination
  by (relation "measure (\<lambda>(ws, s). length s)") simp_all

declare trimLeading.simps [simp del]

definition TrimSpace :: "string \<Rightarrow> string" where
  "TrimSpace s = rev (trimLeading (map rev whiteSpace) (rev (trimLeading whiteSpace s)))"

section \<open>Compiled regular expressions\<close>

text \<open>
  The regular expression engine is Go's standard library, not code of the package.  A
  compiled expression is represented by what the package observes of it: the successive
  non-overlapping matches it finds in a text, each with its byte span and the texts of its
  capture groups, and the expansion of a replacement template for one match.
\<close>

record rmatch =
  mstart :: nat
  mend :: nat
  groups :: "string list"

record regexp =
  source :: string
  allMatches :: "string \<Rightarrow> rmatch list"
  expand :: "string \<Rightarrow> rmatch \<Rightarrow> string"

definition matchText :: "string \<Rightarrow> rmatch \<Rightarrow> string" where
  "matchText src m = take (mend m - mstart m) (drop (mstart m) src)"

text \<open>\<open>re.FindAllString(s, -1)\<close>: the texts of all successive matches.\<close>

definition FindAllString :: "regexp \<Rightarrow> string \<Rightarrow> string list" where
  "FindAllString re s = map (matchText s) (allMatches re s)"

text \<open>
  \<open>re.FindAllStringSubmatch(s, -1)\<close>: for every match the text of the match followed by
  the texts of its capture groups.  \<open>re.MatchString(s)\<close> holds when there is a match.
\<close>

definition FindAllStringSubmatch :: "regexp \<Rightarrow> string \<Rightarrow> string list list" where
  "FindAllStringSubmatch re s = map (\<lambda>m. matchText s m # groups m) (allMatches re s)"

definition MatchString :: "regexp \<Rightarrow> string \<Rightarrow> bool" where
  "MatchString re s \<longleftrightarrow> allMatches re s \<noteq> []"

text \<open>
  The library's internal \<open>replaceAll\<close>: the text between matches is copied, every match
  is handed to the replacement function in left-to-right order.  The function passed to
  \<open>ReplaceAllStringFunc\<close> by the package is a closure over a counter; the counter is the
  state \<open>'s\<close> threaded through the calls.
\<close>

fun replaceAll :: "(rmatch \<Rightarrow> 's \<Rightarrow> string \<times> 's) \<Rightarrow> string \<Rightarrow> nat \<Rightarrow> rmatch list \<Rightarrow> 's \<Rightarrow> string" where
  "replaceAll repl src lastMatchEnd [] st = drop lastMatchEnd src"
| "replaceAll repl src lastMatchEnd (m # ms) st =
     (case repl m st of (r, st') \<Rightarrow>
        take (mstart m - lastMatchEnd) (drop lastMatchEnd src) @ r @
        replaceAll repl src (mend m) ms st')"

definition ReplaceAllString :: "regexp \<Rightarrow> string \<Rightarrow> string \<Rightarrow> string" where
  "ReplaceAllString re src repl =
     replaceAll (\<lambda>m st. (expand re repl m, st)) src 0 (allMatches re src) ()"

definition ReplaceAllStringFunc :: "regexp \<Rightarrow> string \<Rightarrow> (string \<Rightarrow> 's \<Rightarrow> string \<times> 's) \<Rightarrow> 's \<Rightarrow> string" where
  "ReplaceAllStringFunc re src f st =
     replaceAll (\<lambda>m. f (matchText src m)) src 0 (allMatches re src) st"

section \<open>regexReplace\<close>

text \<open>
  The three branches of the \<open>switch\<close> on the limit.  In the first two the closure's
  \<open>counter\<close> is the threaded state, starting at 0.
\<close>

definition regexReplace :: "regexp \<Rightarrow> string \<Rightarrow> string \<Rightarrow> int \<Rightarrow> string" where
  "regexReplace regex input replacement replaceLimit =
     (if replaceLimit > 0 then
        ReplaceAllStringFunc regex input
          (\<lambda>val counter.
             if counter = replaceLimit then (val, counter)
             else (ReplaceAllString regex val replacement, counter + 1))
          (0::int)
      else if replaceLimit < 0 then
        (let matches = FindAllString regex input;
             l = int (length matches) + replaceLimit
         in ReplaceAllStringFunc regex input
              (\<lambda>val counter.
                 if counter \<ge> l then (ReplaceAllString regex val replacement, counter)
                 else (val, counter + 1))
              (0::int))
      else ReplaceAllString regex input replacement)"

subsection \<open>The sign-of-limit semantics, stated by occurrence index\<close>

text \<open>
  The specification speaks of the 0-based occurrence index of a match.  \<open>rebuild g\<close> copies
  the text between the matches and puts \<open>g i m\<close> in the place of the match with occurrence
  index \<open>i\<close>.
\<close>

fun rebuild :: "(nat \<Rightarrow> rmatch \<Rightarrow> string) \<Rightarrow> string \<Rightarrow> nat \<Rightarrow> nat \<Rightarrow> rmatch list \<Rightarrow> string" where
  "rebuild g src lastMatchEnd i [] = drop lastMatchEnd src"
| "rebuild g src lastMatchEnd i (m # ms) =
     take (mstart m - lastMatchEnd) (drop lastMatchEnd src) @ g i m @
     rebuild g src (mend m) (Suc i) ms"

text \<open>
  A match is replaced when the expansion of the replacement for that match, found where
  it stands in the input, takes its place, as in the global replacement; it is left
  unmodified when its own text stays.  \<open>replaceWhere sel\<close> replaces the matches whose
  occurrence index satisfies \<open>sel\<close>.
\<close>

definition replaceWhere :: "(nat \<Rightarrow> bool) \<Rightarrow> regexp \<Rightarrow> string \<Rightarrow> string \<Rightarrow> string" where
  "replaceWhere sel regex input replacement =
     rebuild (\<lambda>i m. if sel i then expand regex replacement m else matchText input m)
       input 0 0 (allMatches regex input)"

text \<open>
  What the closures of \<open>regexReplace\<close> put in the place of a selected match is something
  else: the result of running the regex again on the text of the match alone.
\<close>

definition rerunWhere :: "(nat \<Rightarrow> bool) \<Rightarrow> regexp \<Rightarrow> string \<Rightarrow> string \<Rightarrow> string" where
  "rerunWhere sel regex input replacement =
     rebuild (\<lambda>i m. if sel i then ReplaceAllString regex (matchText input m) replacement
                     else matchText input m)
       input 0 0 (allMatches regex input)"

subsection \<open>A literal pattern\<close>

text \<open>
  The compiled form of a pattern without metacharacters, such as \<open>X\<close>: its matches are the
  successive non-overlapping occurrences of the pattern text, found left to right, it has
  no capture groups, and a replacement template without \<open>$\<close> expands to itself.
\<close>

fun literalMatches :: "string \<Rightarrow> nat \<Rightarrow> nat \<Rightarrow> string \<Rightarrow> rmatch list" where
  "literalMatches pat pos skip [] = []"
| "literalMatches pat pos skip (c # cs) =
     (if skip > 0 then literalMatches pat (Suc pos) (skip - 1) cs
      else if pat \<noteq> [] \<and> take (length pat) (c # cs) = pat then
        \<lparr>mstart = pos, mend = pos + length pat, groups = []\<rparr> #
        literalMatches pat (Suc pos) (length pat - 1) cs
      else literalMatches pat (Suc pos) 0 cs)"

definition literal :: "string \<Rightarrow> regexp" where
  "literal pat =
     \<lparr>source = pat, allMatches = literalMatches pat 0 0, expand = (\<lambda>template m. template)\<rparr>"

text \<open>
  The compiled form of the pattern \<open>\Ba\<close>: the letter a where no word boundary
  precedes it, that is, right after a word character (an ASCII letter, a digit or the
  underscore); at the start of a text there is a word boundary before a letter.
  \<open>prev\<close> tells whether the character before the position is a word character.
\<close>

definition isWordChar :: "char \<Rightarrow> bool" where
  "isWordChar c =
     (let n = of_char c :: nat
      in (48 \<le> n \<and> n \<le> 57) \<or> (65 \<le> n \<and> n \<le> 90) \<or> n = 95 \<or> (97 \<le> n \<and> n \<le> 122))"

fun notBoundaryMatches :: "bool \<Rightarrow> nat \<Rightarrow> string \<Rightarrow> rmatch list" where
  "notBoundaryMatches prev pos [] = []"
| "notBoundaryMatches prev pos (c # cs) =
     (if c = CHR ''a'' \<and> prev then
        \<lparr>mstart = pos, mend = Suc pos, groups = []\<rparr> # notBoundaryMatches True (Suc pos) cs
      else notBoundaryMatches (isWordChar c) (Suc pos) cs)"

definition notBoundaryA :: regexp where
  "notBoundaryA =
     \<lparr>source = [CHR 0x5C, CHR ''B'', CHR ''a''], allMatches = notBoundaryMatches False 0,
      expand = (\<lambda>template m. template)\<rparr>"

section \<open>The data of the package\<close>

subsection \<open>Extracted variables\<close>

text \<open>
  The structs that hold the variables found in a replacement string.  Their declarations
  are in a file of the package other than the one verified; the fields are those the
  verified file assigns.  Go allows the same field name in several structs; here a field
  that several structs share carries the name of its variable kind in front.
\<close>

record csvVarMatch =
  csv_regex :: regexp
  column :: int
  csv_transformToken :: string

record csvVars =
  csv_submatches :: "string list list"
  csv_values :: "csvVarMatch list"

record dateVarMatch =
  date_regex :: regexp
  date_val :: "string list"
  date_attr :: string
  date_token :: string
  date_transformToken :: string

record dateVars =
  date_matches :: "dateVarMatch list"

record hashVarMatch =
  hash_regex :: regexp
  hash_val :: "string list"
  hashFn :: string
  hash_transformToken :: string

record hashVars =
  hash_matches :: "hashVarMatch list"

record transformVarMatch =
  transform_regex :: regexp
  transform_val :: "string list"
  captureVar :: string
  inputStr :: string
  transform_token :: string
  transform_timeStr :: string

record transformVars =
  transform_matches :: "transformVarMatch list"

record exifVarMatch =
  exif_regex :: regexp
  exif_val :: "string list"
  exif_attr :: string
  exif_timeStr :: string
  exif_transformToken :: string

record exifVars =
  exif_matches :: "exifVarMatch list"

record numbersToSkip =
  skipMax :: int
  skipMin :: int

record indexStep =
  isSet :: bool
  stepValue :: int

record indexVarMatch =
  index_regex :: regexp
  index_submatch :: "string list"
  startNumber :: int
  indexFormat :: string
  numberSystem :: string
  index_step :: indexStep
  index_skip :: "numbersToSkip list"

record indexVars =
  index_matches :: "indexVarMatch list"
  capturVarIndex :: "int list"
  index_offset :: "int list"

record exiftoolVarMatch =
  exiftool_regex :: regexp
  exiftool_attr :: string
  exiftool_val :: "string list"
  exiftool_transformToken :: string

record exiftoolVars =
  exiftool_matches :: "exiftoolVarMatch list"

record id3VarMatch =
  id3_regex :: regexp
  id3_tag :: string
  id3_transformToken :: string
  id3_val :: "string list"

record id3Vars =
  id3_matches :: "id3VarMatch list"

record extVarMatch =
  ext_regex :: regexp
  ext_transformToken :: string

record extVars =
  ext_matches :: "extVarMatch list"

record parentDirVarMatch =
  parentDir_regex :: regexp
  parent :: int
  parentDir_transformToken :: string

record parentDirVars =
  parentDir_matches :: "parentDirVarMatch list"

record filenameVarMatch =
  filename_regex :: regexp
  filename_transformToken :: string

record filenameVars =
  filename_matches :: "filenameVarMatch list"

record variables =
  v_filename :: filenameVars
  v_ext :: extVars
  v_parentDir :: parentDirVars
  v_exif :: exifVars
  v_index :: indexVars
  v_id3 :: id3Vars
  v_hash :: hashVars
  v_date :: dateVars
  v_exiftool :: exiftoolVars
  v_transform :: transformVars
  v_csv :: csvVars

subsection \<open>Changes and configuration\<close>

text \<open>
  \<open>file.Change\<close> and \<open>config.Config\<close> with the fields the verified file reads and
  writes.  Modelled from the spec: the \<open>status\<close> package is not among the sources; the
  specification lists the status flags pending, ok, error and conflict, of which the file
  uses \<open>status.OK\<close>.
\<close>

datatype status = Pending | OK | Failed | Conflict

record change =
  Index :: int
  Source :: string
  Target :: string
  IsDir :: bool
  Status :: status
  RelTargetPath :: string
  BaseDir :: string

record config =
  SearchRegex :: regexp
  Replacement :: string
  ReplaceLimit :: int
  IgnoreExt :: bool
  ReplacementSlice :: "string list"
  Sort :: string
  ReverseSort :: bool

subsection \<open>What the verified file takes from elsewhere\<close>

text \<open>
  The eleven lexicon patterns are package variables declared in another file, and
  \<open>regexp.Compile\<close> belongs to the regular expression engine.
  \<open>sortfiles.EnforceHierarchicalOrder\<close>, \<open>sortfiles.Changes\<close> and the method
  \<open>SetFindStringRegex\<close> of the configuration are collaborators in other packages.
  All of them are parameters of the model.

  Modelled from the spec: \<open>replaceVariables\<close> is a function of the package whose file is
  not among the sources.  The specification gives the substituter the contract
  \<open>substitute(workingName, extractedVars, fileContext) -> (finalName, error)\<close>, the index
  state being part of the extracted variables: \<open>substitute\<close> below is that function, a
  parameter too, and \<open>replaceVariables\<close> stores the final name as the target of the change.
\<close>

record env =
  filenameVarRegex :: regexp
  extensionVarRegex :: regexp
  parentDirVarRegex :: regexp
  exifVarRegex :: regexp
  indexVarRegex :: regexp
  id3VarRegex :: regexp
  hashVarRegex :: regexp
  dateVarRegex :: regexp
  exiftoolVarRegex :: regexp
  transformVarRegex :: regexp
  csvVarRegex :: regexp
  Compile :: "string \<Rightarrow> err + regexp"
  EnforceHierarchicalOrder :: "change list \<Rightarrow> change list"
  Changes :: "change list \<Rightarrow> string \<Rightarrow> bool \<Rightarrow> err + change list"
  substitute :: "config \<Rightarrow> change \<Rightarrow> variables \<Rightarrow> failure + string \<times> variables"
  SetFindStringRegex :: "config \<Rightarrow> int \<Rightarrow> err + config"

definition replaceVariables :: "env \<Rightarrow> config \<Rightarrow> change \<Rightarrow> variables \<Rightarrow> failure + change \<times> variables" where
  "replaceVariables e conf change vars =
     (case substitute e conf change vars of
        Inl f \<Rightarrow> Inl f
      | Inr (name, vars') \<Rightarrow> Inr (change\<lparr>Target := name\<rparr>, vars'))"

text \<open>
  Modelled from the spec: \<open>pathutil.StripExtension\<close> is not among the sources; the link
  pass \<open>strips the extension\<close> that \<open>filepath.Ext\<close> finds and reattaches it afterwards.
\<close>

definition StripExtension :: "string \<Rightarrow> string" where
  "StripExtension fileName = take (length fileName - length (Ext fileName)) fileName"

text \<open>
  Modelled from the spec: \<open>config.SetReplacement\<close> is not among the sources; it makes the
  given template the replacement of the configuration that the chain works on.
\<close>

definition SetReplacement :: "config \<Rightarrow> string \<Rightarrow> config" where
  "SetReplacement conf replacement = conf\<lparr>Replacement := replacement\<rparr>"

section \<open>Extraction of the variables\<close>

text \<open>
  Every lexicon function loops over the submatches of its pattern, returns at the first
  submatch it cannot use and appends a match otherwise.  \<open>forEach\<close> is that loop; the
  functions named after a kind of match are the loop bodies.
\<close>

fun forEach :: "('a \<Rightarrow> failure + 'b) \<Rightarrow> 'a list \<Rightarrow> failure + 'b list" where
  "forEach body [] = Inr []"
| "forEach body (x # xs) =
     (case body x of
        Inl f \<Rightarrow> Inl f
      | Inr y \<Rightarrow> (case forEach body xs of Inl f \<Rightarrow> Inl f | Inr ys \<Rightarrow> Inr (y # ys)))"

definition csvMatch :: "env \<Rightarrow> string list \<Rightarrow> failure + csvVarMatch" where
  "csvMatch e sm =
     (if length sm < 3 then Inl (Error errInvalidSubmatches)
      else
        (case Compile e (sm ! 0) of
           Inl x \<Rightarrow> Inl (Error x)
         | Inr regex \<Rightarrow>
             (case Atoi (sm ! 1) of
                Inl x \<Rightarrow> Inl (Error x)
              | Inr n \<Rightarrow>
                  Inr \<lparr>csv_regex = regex, column = n, csv_transformToken = sm ! 2\<rparr>)))"

definition getCSVVars :: "env \<Rightarrow> string \<Rightarrow> failure + csvVars" where
  "getCSVVars e replacementInput =
     (if MatchString (csvVarRegex e) replacementInput then
        (let submatches = FindAllStringSubmatch (csvVarRegex e) replacementInput
         in case forEach (csvMatch e) submatches of
              Inl f \<Rightarrow> Inl f
            | Inr vals \<Rightarrow> Inr \<lparr>csv_submatches = submatches, csv_values = vals\<rparr>)
      else Inr \<lparr>csv_submatches = [], csv_values = []\<rparr>)"

definition dateMatch :: "env \<Rightarrow> string list \<Rightarrow> failure + dateVarMatch" where
  "dateMatch e sm =
     (if length sm < 4 then Inl (Error errInvalidSubmatches)
      else
        (case Compile e (sm ! 0) of
           Inl x \<Rightarrow> Inl (Error x)
         | Inr regex \<Rightarrow>
             Inr \<lparr>date_regex = regex, date_val = sm, date_attr = sm ! 1, date_token = sm ! 2,
                  date_transformToken = sm ! 3\<rparr>))"

definition getDateVars :: "env \<Rightarrow> string \<Rightarrow> failure + dateVars" where
  "getDateVars e replacementInput =
     (if \<not> MatchString (dateVarRegex e) replacementInput then Inr \<lparr>date_matches = []\<rparr>
      else
        (case forEach (dateMatch e) (FindAllStringSubmatch (dateVarRegex e) replacementInput) of
           Inl f \<Rightarrow> Inl f
         | Inr ms \<Rightarrow> Inr \<lparr>date_matches = ms\<rparr>))"

definition hashMatch :: "env \<Rightarrow> string list \<Rightarrow> failure + hashVarMatch" where
  "hashMatch e sm =
     (if length sm < 3 then Inl (Error errInvalidSubmatches)
      else
        (case Compile e (sm ! 0) of
           Inl x \<Rightarrow> Inl (Error x)
         | Inr regex \<Rightarrow>
             Inr \<lparr>hash_regex = regex, hash_val = sm, hashFn = sm ! 1,
                  hash_transformToken = sm ! 2\<rparr>))"

definition getHashVars :: "env \<Rightarrow> string \<Rightarrow> failure + hashVars" where
  "getHashVars e replacementInput =
     (if \<not> MatchString (hashVarRegex e) replacementInput then Inr \<lparr>hash_matches = []\<rparr>
      else
        (case forEach (hashMatch e) (FindAllStringSubmatch (hashVarRegex e) replacementInput) of
           Inl f \<Rightarrow> Inl f
         | Inr ms \<Rightarrow> Inr \<lparr>hash_matches = ms\<rparr>))"

definition transformMatch :: "env \<Rightarrow> string list \<Rightarrow> failure + transformVarMatch" where
  "transformMatch e sm =
     (if length sm < 5 then Inl (Error errInvalidSubmatches)
      else
        (case Compile e (sm ! 0) of
           Inl x \<Rightarrow> Inl (Error x)
         | Inr regex \<Rightarrow>
             Inr \<lparr>transform_regex = regex, transform_val = sm, captureVar = sm ! 1,
                  inputStr = sm ! 2, transform_token = sm ! 3, transform_timeStr = sm ! 4\<rparr>))"

definition getTransformVars :: "env \<Rightarrow> string \<Rightarrow> failure + transformVars" where
  "getTransformVars e replacementInput =
     (if \<not> MatchString (transformVarRegex e) replacementInput then
        Inr \<lparr>transform_matches = []\<rparr>
      else
        (case forEach (transformMatch e)
                (FindAllStringSubmatch (transformVarRegex e) replacementInput) of
           Inl f \<Rightarrow> Inl f
         | Inr ms \<Rightarrow> Inr \<lparr>transform_matches = ms\<rparr>))"

text \<open>
  The exif lexicon expects four elements and reads the fifth, \<open>submatch[4]\<close>: with exactly
  four the read is out of range.
\<close>

definition exifMatch :: "env \<Rightarrow> string list \<Rightarrow> failure + exifVarMatch" where
  "exifMatch e sm =
     (if length sm < 4 then Inl (Error errInvalidSubmatches)
      else
        (case Compile e (sm ! 0) of
           Inl x \<Rightarrow> Inl (Error x)
         | Inr regex \<Rightarrow>
             (let attr = (if sm ! 2 \<noteq> [] then sm ! 2 else sm ! 1)
              in if length sm \<le> 4 then Inl (IndexOutOfRange 4 (length sm))
                 else
                   Inr \<lparr>exif_regex = regex, exif_val = sm, exif_attr = attr,
                        exif_timeStr = sm ! 3, exif_transformToken = sm ! 4\<rparr>)))"

definition getExifVars :: "env \<Rightarrow> string \<Rightarrow> failure + exifVars" where
  "getExifVars e replacementInput =
     (if \<not> MatchString (exifVarRegex e) replacementInput then Inr \<lparr>exif_matches = []\<rparr>
      else
        (case forEach (exifMatch e) (FindAllStringSubmatch (exifVarRegex e) replacementInput) of
           Inl f \<Rightarrow> Inl f
         | Inr ms \<Rightarrow> Inr \<lparr>exif_matches = ms\<rparr>))"

text \<open>
  The skip specifier of an index variable: the loop over the parts between semicolons.  A
  part with a dash is a range, whose bounds are ordered through \<open>math.Max\<close> and
  \<open>math.Min\<close> on their conversions to \<open>float64\<close>; any other part is a single number.
  A part that contains a dash splits into at least two pieces, so \<open>numRange[1]\<close> exists.
\<close>

fun skipLoop :: "string list \<Rightarrow> numbersToSkip list \<Rightarrow> err + numbersToSkip list" where
  "skipLoop [] sk = Inr sk"
| "skipLoop (val # rest) sk =
     (if Contains val CHR ''-'' then
        (let numRange = Split val CHR ''-''
         in case Atoi (numRange ! 0) of
              Inl x \<Rightarrow> Inl x
            | Inr startNum \<Rightarrow>
                (case Atoi (numRange ! 1) of
                   Inl x \<Rightarrow> Inl x
                 | Inr endNum \<Rightarrow>
                     skipLoop rest
                       (sk @
                        [\<lparr>skipMax = int_of_float64 (max (float64 startNum) (float64 endNum)),
                          skipMin = int_of_float64 (min (float64 startNum) (float64 endNum))\<rparr>])))
      else
        (case Atoi val of
           Inl x \<Rightarrow> Inl x
         | Inr num \<Rightarrow> skipLoop rest (sk @ [\<lparr>skipMax = num, skipMin = num\<rparr>])))"

text \<open>
  The body of the loop of \<open>getIndexingVars\<close> over the submatches: a submatch with
  fewer than eight elements makes it panic.  The loop itself carries the loop index
  \<open>i\<close>, which it appends to \<open>capturVarIndex\<close> when the first group is not empty; that
  append cannot fail, and is written after the parts of the body that can.
\<close>

definition indexMatch :: "env \<Rightarrow> string list \<Rightarrow> failure + indexVarMatch" where
  "indexMatch e sm =
     (if length sm < 8 then Inl (Panic errInvalidSubmatches)
      else
        (case Compile e (sm ! 0) of
           Inl x \<Rightarrow> Inl (Error x)
         | Inr regex \<Rightarrow>
             (case (if sm ! 2 \<noteq> [] then Atoi (sm ! 2) else Inr 1) of
                Inl x \<Rightarrow> Inl (Error x)
              | Inr start \<Rightarrow>
                  (case (if sm ! 6 \<noteq> [] then
                           (case Atoi (sm ! 6) of
                              Inl x \<Rightarrow> Inl x
                            | Inr v \<Rightarrow> Inr \<lparr>isSet = True, stepValue = v\<rparr>)
                         else Inr \<lparr>isSet = False, stepValue = 0\<rparr>) of
                     Inl x \<Rightarrow> Inl (Error x)
                   | Inr st \<Rightarrow>
                       (case (if sm ! 7 \<noteq> [] then skipLoop (Split (sm ! 7) CHR '';'') []
                              else Inr []) of
                          Inl x \<Rightarrow> Inl (Error x)
                        | Inr sk \<Rightarrow>
                            Inr \<lparr>index_regex = regex, index_submatch = sm,
                                 startNumber = start, indexFormat = sm ! 3,
                                 numberSystem = sm ! 5, index_step = st,
                                 index_skip = sk\<rparr>)))))"

fun indexLoop :: "env \<Rightarrow> nat \<Rightarrow> string list list \<Rightarrow> indexVars \<Rightarrow> failure + indexVars" where
  "indexLoop e i [] indexMatches = Inr indexMatches"
| "indexLoop e i (sm # rest) indexMatches =
     (case indexMatch e sm of
        Inl f \<Rightarrow> Inl f
      | Inr m \<Rightarrow>
          indexLoop e (Suc i) rest
            (indexMatches
               \<lparr>index_matches := index_matches indexMatches @ [m],
                capturVarIndex :=
                  (if sm ! 1 \<noteq> [] then capturVarIndex indexMatches @ [int i]
                   else capturVarIndex indexMatches)\<rparr>))"

definition getIndexingVars :: "env \<Rightarrow> string \<Rightarrow> failure + indexVars" where
  "getIndexingVars e replacementInput =
     (let submatches = FindAllStringSubmatch (indexVarRegex e) replacementInput
      in if submatches = [] then
           Inr \<lparr>index_matches = [], capturVarIndex = [], index_offset = []\<rparr>
         else
           (case indexLoop e 0 submatches
                   \<lparr>index_matches = [], capturVarIndex = [], index_offset = []\<rparr> of
              Inl f \<Rightarrow> Inl f
            | Inr indexMatches \<Rightarrow>
                Inr (indexMatches
                       \<lparr>index_offset := index_offset indexMatches @
                          map (\<lambda>m. 0) (index_matches indexMatches)\<rparr>)))"

definition exiftoolMatch :: "env \<Rightarrow> string list \<Rightarrow> failure + exiftoolVarMatch" where
  "exiftoolMatch e sm =
     (if length sm < 3 then Inl (Error errInvalidSubmatches)
      else
        (case Compile e (sm ! 0) of
           Inl x \<Rightarrow> Inl (Error x)
         | Inr regex \<Rightarrow>
             Inr \<lparr>exiftool_regex = regex, exiftool_attr = sm ! 1, exiftool_val = sm,
                  exiftool_transformToken = sm ! 2\<rparr>))"

definition getExifToolVars :: "env \<Rightarrow> string \<Rightarrow> failure + exiftoolVars" where
  "getExifToolVars e replacementInput =
     (if \<not> MatchString (exiftoolVarRegex e) replacementInput then
        Inr \<lparr>exiftool_matches = []\<rparr>
      else
        (case forEach (exiftoolMatch e)
                (FindAllStringSubmatch (exiftoolVarRegex e) replacementInput) of
           Inl f \<Rightarrow> Inl f
         | Inr ms \<Rightarrow> Inr \<lparr>exiftool_matches = ms\<rparr>))"

text \<open>
  The id3 lexicon expects two elements and reads the third, \<open>submatch[2]\<close>: with exactly
  two the read is out of range.
\<close>

definition id3Match :: "env \<Rightarrow> string list \<Rightarrow> failure + id3VarMatch" where
  "id3Match e sm =
     (if length sm < 2 then Inl (Error errInvalidSubmatches)
      else
        (case Compile e (sm ! 0) of
           Inl x \<Rightarrow> Inl (Error x)
         | Inr regex \<Rightarrow>
             if length sm \<le> 2 then Inl (IndexOutOfRange 2 (length sm))
             else
               Inr \<lparr>id3_regex = regex, id3_tag = sm ! 1, id3_transformToken = sm ! 2,
                    id3_val = sm\<rparr>))"

definition getID3Vars :: "env \<Rightarrow> string \<Rightarrow> failure + id3Vars" where
  "getID3Vars e replacementInput =
     (if \<not> MatchString (id3VarRegex e) replacementInput then Inr \<lparr>id3_matches = []\<rparr>
      else
        (case forEach (id3Match e) (FindAllStringSubmatch (id3VarRegex e) replacementInput) of
           Inl f \<Rightarrow> Inl f
         | Inr ms \<Rightarrow> Inr \<lparr>id3_matches = ms\<rparr>))"

definition extMatch :: "env \<Rightarrow> string list \<Rightarrow> failure + extVarMatch" where
  "extMatch e sm =
     (if length sm < 2 then Inl (Error errInvalidSubmatches)
      else
        (case Compile e (sm ! 0) of
           Inl x \<Rightarrow> Inl (Error x)
         | Inr regex \<Rightarrow> Inr \<lparr>ext_regex = regex, ext_transformToken = sm ! 1\<rparr>))"

definition getExtVars :: "env \<Rightarrow> string \<Rightarrow> failure + extVars" where
  "getExtVars e replacementInput =
     (if \<not> MatchString (extensionVarRegex e) replacementInput then Inr \<lparr>ext_matches = []\<rparr>
      else
        (case forEach (extMatch e)
                (FindAllStringSubmatch (extensionVarRegex e) replacementInput) of
           Inl f \<Rightarrow> Inl f
         | Inr ms \<Rightarrow> Inr \<lparr>ext_matches = ms\<rparr>))"

definition parentDirMatch :: "env \<Rightarrow> string list \<Rightarrow> failure + parentDirVarMatch" where
  "parentDirMatch e sm =
     (if length sm < 3 then Inl (Error errInvalidSubmatches)
      else
        (case Compile e (sm ! 0) of
           Inl x \<Rightarrow> Inl (Error x)
         | Inr regex \<Rightarrow>
             (case (if sm ! 1 \<noteq> [] then Atoi (sm ! 1) else Inr 1) of
                Inl x \<Rightarrow> Inl (Error x)
              | Inr n \<Rightarrow>
                  Inr \<lparr>parentDir_regex = regex, parent = n,
                       parentDir_transformToken = sm ! 2\<rparr>)))"

definition getParentDirVars :: "env \<Rightarrow> string \<Rightarrow> failure + parentDirVars" where
  "getParentDirVars e replacementInput =
     (if \<not> MatchString (parentDirVarRegex e) replacementInput then
        Inr \<lparr>parentDir_matches = []\<rparr>
      else
        (case forEach (parentDirMatch e)
                (FindAllStringSubmatch (parentDirVarRegex e) replacementInput) of
           Inl f \<Rightarrow> Inl f
         | Inr ms \<Rightarrow> Inr \<lparr>parentDir_matches = ms\<rparr>))"

definition filenameMatch :: "env \<Rightarrow> string list \<Rightarrow> failure + filenameVarMatch" where
  "filenameMatch e sm =
     (if length sm < 2 then Inl (Error errInvalidSubmatches)
      else
        (case Compile e (sm ! 0) of
           Inl x \<Rightarrow> Inl (Error x)
         | Inr regex \<Rightarrow> Inr \<lparr>filename_regex = regex, filename_transformToken = sm ! 1\<rparr>))"

definition getFilenameVars :: "env \<Rightarrow> string \<Rightarrow> failure + filenameVars" where
  "getFilenameVars e replacementInput =
     (if \<not> MatchString (filenameVarRegex e) replacementInput then
        Inr \<lparr>filename_matches = []\<rparr>
      else
        (case forEach (filenameMatch e)
                (FindAllStringSubmatch (filenameVarRegex e) replacementInput) of
           Inl f \<Rightarrow> Inl f
         | Inr ms \<Rightarrow> Inr \<lparr>filename_matches = ms\<rparr>))"

text \<open>
  \<open>extractVariables\<close> runs the eleven lexicons in its own order and returns at the
  first failure: \<open>andThen r k\<close> is the step \<open>x, err := r; if err != nil { return vars, err }\<close>
  followed by the rest \<open>k x\<close> of the function.
\<close>

definition andThen :: "failure + 'a \<Rightarrow> ('a \<Rightarrow> failure + 'b) \<Rightarrow> failure + 'b" where
  "andThen r k = (case r of Inl f \<Rightarrow> Inl f | Inr x \<Rightarrow> k x)"

definition extractVariables :: "env \<Rightarrow> string \<Rightarrow> failure + variables" where
  "extractVariables e replacement =
     andThen (getFilenameVars e replacement) (\<lambda>fv.
     andThen (getExtVars e replacement) (\<lambda>ev.
     andThen (getParentDirVars e replacement) (\<lambda>pv.
     andThen (getExifVars e replacement) (\<lambda>xv.
     andThen (getIndexingVars e replacement) (\<lambda>iv.
     andThen (getID3Vars e replacement) (\<lambda>i3.
     andThen (getHashVars e replacement) (\<lambda>hv.
     andThen (getDateVars e replacement) (\<lambda>dv.
     andThen (getExifToolVars e replacement) (\<lambda>tv.
     andThen (getTransformVars e replacement) (\<lambda>trv.
     andThen (getCSVVars e replacement) (\<lambda>cv.
       Inr \<lparr>v_filename = fv, v_ext = ev, v_parentDir = pv, v_exif = xv, v_index = iv,
            v_id3 = i3, v_hash = hv, v_date = dv, v_exiftool = tv, v_transform = trv,
            v_csv = cv\<rparr>)))))))))))"

section \<open>Replacement of the matches\<close>

definition replaceString :: "config \<Rightarrow> string \<Rightarrow> string" where
  "replaceString conf originalName =
     regexReplace (SearchRegex conf) originalName (Replacement conf) (ReplaceLimit conf)"

text \<open>
  The functions below call \<open>slog\<close>.  Their model returns, next to the result, the messages
  of the calls made, in order and without their attributes; a failure keeps the messages
  logged before it.

  \<open>replaceOne\<close> is the body of the loop of \<open>replaceMatches\<close> for the change at position
  \<open>i\<close>, with the variables as they stand after the changes before it.
\<close>

definition replaceOne :: "env \<Rightarrow> config \<Rightarrow> variables \<Rightarrow> nat \<Rightarrow> change \<Rightarrow> string list \<times> (failure + change \<times> variables)" where
  "replaceOne e conf vars i c =
     (let change1 = c\<lparr>Index := int i\<rparr>;
          originalName = Source change1;
          fileExt = Ext originalName;
          originalName' =
            (if IgnoreExt conf \<and> \<not> IsDir change1 then StripExtension originalName
             else originalName);
          change2 = change1\<lparr>Target := replaceString conf originalName'\<rparr>
      in case replaceVariables e conf change2 vars of
           Inl f \<Rightarrow> ([''regex replacement result''], Inl f)
         | Inr (change3, vars') \<Rightarrow>
             (let change4 =
                    (if IgnoreExt conf \<and> \<not> IsDir change3 then
                       change3\<lparr>Target := Target change3 @ fileExt\<rparr>
                     else change3);
                  change5 = change4\<lparr>Target := TrimSpace (Clean (Target change4))\<rparr>;
                  change6 = change5\<lparr>Status := OK\<rparr>;
                  change7 = change6\<lparr>RelTargetPath := Join [BaseDir change6, Target change6]\<rparr>
              in ([''regex replacement result'', ''variable replacement result''],
                  Inr (change7, vars'))))"

text \<open>
  The loop over the matches.  The variables are a local of \<open>replaceMatches\<close> that the
  substituter updates through a pointer; the loop returns them as the last change left
  them, and \<open>replaceMatches\<close> returns the matches alone.
\<close>

fun replaceLoop :: "env \<Rightarrow> config \<Rightarrow> variables \<Rightarrow> nat \<Rightarrow> change list \<Rightarrow> string list \<times> (failure + change list \<times> variables)" where
  "replaceLoop e conf vars i [] = ([], Inr ([], vars))"
| "replaceLoop e conf vars i (c # rest) =
     (case replaceOne e conf vars i c of
        (l, Inl f) \<Rightarrow> (l, Inl f)
      | (l, Inr (c', vars')) \<Rightarrow>
          (case replaceLoop e conf vars' (Suc i) rest of
             (l', Inl f) \<Rightarrow> (l @ l', Inl f)
           | (l', Inr (out, vars'')) \<Rightarrow> (l @ l', Inr (c' # out, vars''))))"

definition replaceMatches :: "env \<Rightarrow> config \<Rightarrow> change list \<Rightarrow> string list \<times> (failure + change list)" where
  "replaceMatches e conf matches =
     (case extractVariables e (Replacement conf) of
        Inl f \<Rightarrow> ([], Inl f)
      | Inr vars \<Rightarrow>
          (if length (index_matches (v_index vars)) > 0 then
             (case replaceLoop e conf vars 0 (EnforceHierarchicalOrder e matches) of
                (l, r) \<Rightarrow>
                  (''extracted variables'' # ''sorted matches based on directory level'' # l,
                   map_sum id fst r))
           else
             (case replaceLoop e conf vars 0 matches of
                (l, r) \<Rightarrow> (''extracted variables'' # l, map_sum id fst r))))"

text \<open>
  The loop of \<open>handleReplacementChain\<close> over \<open>replacementSlice\<close>: \<open>n\<close> is the length of
  the slice, \<open>i\<close> the loop index and the list what is left to range over.  The
  configuration is reached through a pointer and changed by \<open>SetReplacement\<close> and
  \<open>SetFindStringRegex\<close>; the model returns it with the matches.
\<close>

fun chainLoop :: "env \<Rightarrow> nat \<Rightarrow> config \<Rightarrow> nat \<Rightarrow> string list \<Rightarrow> change list \<Rightarrow> string list \<times> (failure + config \<times> change list)" where
  "chainLoop e n conf i [] matches = ([], Inr (conf, matches))"
| "chainLoop e n conf i (v # vs) matches =
     (case replaceMatches e (SetReplacement conf v) matches of
        (l, Inl f) \<Rightarrow> (''executing find and replace'' # l, Inl f)
      | (l, Inr matches1) \<Rightarrow>
          if n = 1 \<or> (i > 0 \<and> int i = int n - 1) then
            (''executing find and replace'' # l @ [''find/replace result''],
             Inr (SetReplacement conf v, matches1))
          else
            (let matches2 =
                   map (\<lambda>change. if int i \<noteq> int n - 1 then change\<lparr>Source := Target change\<rparr>
                                   else change) matches1
             in case SetFindStringRegex e (SetReplacement conf v) (int i + 1) of
                  Inl x \<Rightarrow>
                    (''executing find and replace'' # l @
                     [''find/replace result'', ''updated sources for next find/replace''],
                     Inl (Error x))
                | Inr conf2 \<Rightarrow>
                    (case chainLoop e n conf2 (Suc i) vs matches2 of
                       (l', r) \<Rightarrow>
                         (''executing find and replace'' # l @
                          [''find/replace result'', ''updated sources for next find/replace''] @
                          l', r))))"

definition handleReplacementChain :: "env \<Rightarrow> config \<Rightarrow> change list \<Rightarrow> string list \<times> (failure + config \<times> change list)" where
  "handleReplacementChain e conf matches =
     chainLoop e (length (ReplacementSlice conf)) conf 0 (ReplacementSlice conf) matches"

definition Replace :: "env \<Rightarrow> config \<Rightarrow> change list \<Rightarrow> string list \<times> (failure + config \<times> change list)" where
  "Replace e conf changes =
     (if Sort conf \<noteq> [] then
        (case Changes e changes (Sort conf) (ReverseSort conf) of
           Inl x \<Rightarrow> ([''sorting matches before replacement''], Inl (Error x))
         | Inr changes' \<Rightarrow>
             (case handleReplacementChain e conf changes' of
                (l, r) \<Rightarrow>
                  (''sorting matches before replacement'' #
                   ''updated match order according to sort value'' # l, r)))
      else handleReplacementChain e conf changes)"

section \<open>The chain as the specification words it\<close>

text \<open>
  The links run in order.  The final link only records its targets.  After any other
  link the source of every change is overwritten with the target just produced and the
  search pattern is recompiled for the next link, whose index is \<open>i + 1\<close>.
\<close>

fun chainSpec :: "env \<Rightarrow> config \<Rightarrow> nat \<Rightarrow> string list \<Rightarrow> change list \<Rightarrow> failure + config \<times> change list" where
  "chainSpec e conf i [] matches = Inr (conf, matches)"
| "chainSpec e conf i [v] matches =
     (case snd (replaceMatches e (SetReplacement conf v) matches) of
        Inl f \<Rightarrow> Inl f
      | Inr out \<Rightarrow> Inr (SetReplacement conf v, out))"
| "chainSpec e conf i (v # w # vs) matches =
     (case snd (replaceMatches e (SetReplacement conf v) matches) of
        Inl f \<Rightarrow> Inl f
      | Inr out \<Rightarrow>
          (case SetFindStringRegex e (SetReplacement conf v) (int i + 1) of
             Inl x \<Rightarrow> Inl (Error x)
           | Inr conf2 \<Rightarrow>
               chainSpec e conf2 (Suc i) (w # vs)
                 (map (\<lambda>change. change\<lparr>Source := Target change\<rparr>) out)))"

section \<open>Observing the hierarchical reordering\<close>

text \<open>
  \<open>replaceMatches\<close> logs one message right after it has called
  \<open>EnforceHierarchicalOrder\<close> and nowhere else: the number of these messages in a log
  is the number of reorderings performed.  A template has an index token when its
  extraction yields at least one index match.
\<close>

definition reorderings :: "string list \<Rightarrow> nat" where
  "reorderings l = length (filter (\<lambda>m. m = ''sorted matches based on directory level'') l)"

definition hasIndexToken :: "env \<Rightarrow> string \<Rightarrow> bool" where
  "hasIndexToken e template =
     (case extractVariables e template of
        Inl f \<Rightarrow> False
      | Inr vars \<Rightarrow> length (index_matches (v_index vars)) > 0)"

section \<open>Positions in the loops\<close>

text \<open>
  \<open>workingName\<close> is the name the search pattern is applied to: the source without its
  extension for a file in extension-preserving mode, the whole source otherwise.
  \<open>linkBatch\<close> is the batch in the order in which the loop of \<open>replaceMatches\<close> goes
  through it.  \<open>beforeMatch k\<close> is the result of that loop on the \<open>k\<close> changes before
  position \<open>k\<close>: the changes made, and the variables with which position \<open>k\<close> is
  reached.  \<open>beforeLink k\<close> is the result of the loop of the chain on the \<open>k\<close> links
  before link \<open>k\<close>: the configuration and the matches with which link \<open>k\<close> starts.
\<close>

definition workingName :: "config \<Rightarrow> change \<Rightarrow> string" where
  "workingName conf c =
     (if IgnoreExt conf \<and> \<not> IsDir c then StripExtension (Source c) else Source c)"

definition linkBatch :: "env \<Rightarrow> config \<Rightarrow> change list \<Rightarrow> change list" where
  "linkBatch e conf matches =
     (if hasIndexToken e (Replacement conf) then EnforceHierarchicalOrder e matches else matches)"

definition beforeMatch :: "env \<Rightarrow> config \<Rightarrow> nat \<Rightarrow> change list \<Rightarrow> failure + change list \<times> variables" where
  "beforeMatch e conf k matches =
     (case extractVariables e (Replacement conf) of
        Inl f \<Rightarrow> Inl f
      | Inr vars \<Rightarrow> snd (replaceLoop e conf vars 0 (take k (linkBatch e conf matches))))"

definition beforeLink :: "env \<Rightarrow> config \<Rightarrow> nat \<Rightarrow> change list \<Rightarrow> failure + config \<times> change list" where
  "beforeLink e conf k matches =
     snd (chainLoop e (length (ReplacementSlice conf)) conf 0 (take k (ReplacementSlice conf))
            matches)"

section \<open>Concrete collaborators\<close>

text \<open>
  Instances of the parameters, for running the functions on concrete inputs.  A lexicon
  pattern finds nothing in a template without tokens of its kind.  In a template whose
  tokens of a kind all have the text \<open>tok\<close> it finds the occurrences of \<open>tok\<close>, each with
  the capture groups \<open>gs\<close> of that token.
\<close>

definition noTokens :: regexp where
  "noTokens = \<lparr>source = [], allMatches = (\<lambda>s. []), expand = (\<lambda>template m. template)\<rparr>"

definition tokenLexicon :: "string \<Rightarrow> string list \<Rightarrow> regexp" where
  "tokenLexicon tok gs =
     \<lparr>source = tok, allMatches = (\<lambda>s. map (\<lambda>m. m\<lparr>groups := gs\<rparr>) (literalMatches tok 0 0 s)),
      expand = (\<lambda>template m. template)\<rparr>"

text \<open>
  The hierarchical order as a stable sort on the length of the base directory, and the
  decimal numeral of a number.
\<close>

definition byDirectoryLevel :: "change list \<Rightarrow> change list" where
  "byDirectoryLevel matches = sort_key (\<lambda>c. length (BaseDir c)) matches"

fun decimal :: "nat \<Rightarrow> string" where
  "decimal n =
     (if n < 10 then [char_of (48 + n)] else decimal (n div 10) @ [char_of (48 + n mod 10)])"

declare decimal.simps [simp del]

text \<open>
  \<open>plainEnv finds\<close>: templates are free of tokens, every pattern is a literal one, the
  substituter returns the working name, and the search pattern of link \<open>i\<close> is the
  \<open>i\<close>-th of the find arguments \<open>finds\<close>.  \<open>indexEnv finds\<close> differs in the index lexicon,
  which knows the token \<open>{%d}\<close>, and in the substituter, which puts the position of the
  change, counted from one, in the place of that token.
\<close>

definition plainEnv :: "string list \<Rightarrow> env" where
  "plainEnv finds =
     \<lparr>filenameVarRegex = noTokens, extensionVarRegex = noTokens, parentDirVarRegex = noTokens,
      exifVarRegex = noTokens, indexVarRegex = noTokens, id3VarRegex = noTokens,
      hashVarRegex = noTokens, dateVarRegex = noTokens, exiftoolVarRegex = noTokens,
      transformVarRegex = noTokens, csvVarRegex = noTokens,
      Compile = (\<lambda>s. Inr (literal s)),
      EnforceHierarchicalOrder = byDirectoryLevel,
      Changes = (\<lambda>changes criterion reverse. Inr changes),
      substitute = (\<lambda>conf c vars. Inr (Target c, vars)),
      SetFindStringRegex =
        (\<lambda>conf i. if 0 \<le> i \<and> nat i < length finds
                   then Inr (conf\<lparr>SearchRegex := literal (finds ! nat i)\<rparr>)
                   else Inl (ErrCollaborator ''no find argument''))\<rparr>"

definition indexEnv :: "string list \<Rightarrow> env" where
  "indexEnv finds =
     (plainEnv finds)
       \<lparr>indexVarRegex := tokenLexicon ''{%d}'' ['''', '''', ''%d'', '''', '''', '''', ''''],
        substitute :=
          (\<lambda>conf c vars.
             Inr (ReplaceAllString (literal ''{%d}'') (Target c) (decimal (nat (Index c) + 1)),
                  vars))\<rparr>"

definition aFile :: "string \<Rightarrow> string \<Rightarrow> change" where
  "aFile dir name =
     \<lparr>Index = 0, Source = name, Target = [], IsDir = False, Status = Pending,
      RelTargetPath = [], BaseDir = dir\<rparr>"

definition aConfig :: "string \<Rightarrow> string list \<Rightarrow> int \<Rightarrow> bool \<Rightarrow> config" where
  "aConfig findArg replacements limit ignoreExt =
     \<lparr>SearchRegex = literal findArg, Replacement = [], ReplaceLimit = limit,
      IgnoreExt = ignoreExt, ReplacementSlice = replacements, Sort = [],
      ReverseSort = False\<rparr>"

text \<open>
  Lexicons that break the invariant on the number of groups, which no pattern of the
  regular expression engine does: in \<open>shortEnv\<close> every lexicon yields the token text
  alone, in \<open>shortIndexEnv\<close> the index lexicon yields three elements, in
  \<open>shortExifEnv\<close> the exif lexicon yields four and in \<open>shortID3Env\<close> the id3 lexicon
  yields two.  \<open>skipEnv\<close> is the index lexicon on the token
  \<open>{%d<9007199254740993-1>}\<close>, whose seventh group is the skip specifier.
\<close>

definition shortEnv :: env where
  "shortEnv =
     (plainEnv [])
       \<lparr>filenameVarRegex := tokenLexicon ''{x}'' [], extensionVarRegex := tokenLexicon ''{x}'' [],
        parentDirVarRegex := tokenLexicon ''{x}'' [], exifVarRegex := tokenLexicon ''{x}'' [],
        indexVarRegex := tokenLexicon ''{x}'' [], id3VarRegex := tokenLexicon ''{x}'' [],
        hashVarRegex := tokenLexicon ''{x}'' [], dateVarRegex := tokenLexicon ''{x}'' [],
        exiftoolVarRegex := tokenLexicon ''{x}'' [], transformVarRegex := tokenLexicon ''{x}'' [],
        csvVarRegex := tokenLexicon ''{x}'' []\<rparr>"




definition skipEnv :: env where
  "skipEnv =
     (plainEnv [])
       \<lparr>indexVarRegex :=
          tokenLexicon ''{%d<9007199254740993-1>}''
            ['''', '''', ''%d'', '''', '''', '''', ''9007199254740993-1'']\<rparr>"

text \<open>
  A directory; a substituter whose provider fails on the source \<open>bad\<close>; a parent
  directory lexicon on the token \<open>{2xp}\<close>, whose number of levels is not a number; and
  the zero value of the extracted variables.
\<close>

definition aDir :: "string \<Rightarrow> string \<Rightarrow> change" where
  "aDir dir name = (aFile dir name)\<lparr>IsDir := True\<rparr>"

definition providerEnv :: "string list \<Rightarrow> string \<Rightarrow> env" where
  "providerEnv finds bad =
     (plainEnv finds)
       \<lparr>substitute :=
          (\<lambda>conf c vars.
             if Source c = bad then Inl (Error (ErrCollaborator ''no metadata''))
             else Inr (Target c, vars))\<rparr>"

definition parentDirEnv :: "string list \<Rightarrow> env" where
  "parentDirEnv finds =
     (plainEnv finds)\<lparr>parentDirVarRegex := tokenLexicon ''{2xp}'' [''2x'', '''']\<rparr>"

definition noVariables :: variables where
  "noVariables =
     \<lparr>v_filename = \<lparr>filename_matches = []\<rparr>, v_ext = \<lparr>ext_matches = []\<rparr>,
      v_parentDir = \<lparr>parentDir_matches = []\<rparr>, v_exif = \<lparr>exif_matches = []\<rparr>,
      v_index = \<lparr>index_matches = [], capturVarIndex = [], index_offset = []\<rparr>,
      v_id3 = \<lparr>id3_matches = []\<rparr>, v_hash = \<lparr>hash_matches = []\<rparr>,
      v_date = \<lparr>date_matches = []\<rparr>, v_exiftool = \<lparr>exiftool_matches = []\<rparr>,
      v_transform = \<lparr>transform_matches = []\<rparr>,
      v_csv = \<lparr>csv_submatches = [], csv_values = []\<rparr>\<rparr>"

section \<open>Properties\<close>

subsection \<open>regexReplace\<close>

lemma replaceAll_first:
  "replaceAll (\<lambda>m c. if c = lim then (matchText src m, c) else (h m, c + 1)) src e0 ms c0 =
   rebuild (\<lambda>i m. if int i < lim then h m else matchText src m) src e0 k ms"
  if "c0 = min (int k) lim" "0 \<le> lim"
  using that
proof (induction ms arbitrary: e0 k c0)
  case Nil
  show ?case by simp
next
  case (Cons m ms)
  show ?case
  proof (cases "int k < lim")
    case True
    with Cons.prems have c: "c0 = int k" "c0 \<noteq> lim" by auto
    have "c0 + 1 = min (int (Suc k)) lim" using True c by simp
    from Cons.IH [OF this Cons.prems(2)] c True show ?thesis by simp
  next
    case False
    with Cons.prems have c: "c0 = lim" by auto
    have "c0 = min (int (Suc k)) lim" using False c by simp
    from Cons.IH [OF this Cons.prems(2)] c False show ?thesis by simp
  qed
qed

lemma replaceAll_last:
  "replaceAll (\<lambda>m c. if c \<ge> l then (h m, c) else (matchText src m, c + 1)) src e0 ms c0 =
   rebuild (\<lambda>i m. if int i \<ge> l then h m else matchText src m) src e0 k ms"
  if "c0 = (if int k \<ge> l then max l 0 else int k)"
  using that
proof (induction ms arbitrary: e0 k c0)
  case Nil
  show ?case by simp
next
  case (Cons m ms)
  show ?case
  proof (cases "int k \<ge> l")
    case True
    with Cons.prems have c: "c0 = max l 0" "c0 \<ge> l" by auto
    have "c0 = (if int (Suc k) \<ge> l then max l 0 else int (Suc k))" using True c by simp
    from Cons.IH [OF this] c True show ?thesis by simp
  next
    case False
    with Cons.prems have c: "c0 = int k" "\<not> c0 \<ge> l" by auto
    have "c0 + 1 = (if int (Suc k) \<ge> l then max l 0 else int (Suc k))"
      using False c by auto
    from Cons.IH [OF this] c False show ?thesis by simp
  qed
qed

lemma rebuild_all:
  "replaceAll (\<lambda>m st. (h m, st)) src e0 ms u = rebuild (\<lambda>i. h) src e0 k ms"
  by (induction ms arbitrary: e0 k) simp_all

lemma regexReplace_X_first: "regexReplace (literal ''X'') ''aXaXaXa'' ''-'' 1 = ''a-aXaXa''"
  by (simp add: regexReplace_def ReplaceAllStringFunc_def ReplaceAllString_def literal_def
      matchText_def)

lemma regexReplace_X_last: "regexReplace (literal ''X'') ''aXaXaXa'' ''-'' (- 1) = ''aXaXa-a''"
  by (simp add: regexReplace_def ReplaceAllStringFunc_def ReplaceAllString_def literal_def
      matchText_def FindAllString_def)

lemma regexReplace_X_all: "regexReplace (literal ''X'') ''aXaXaXa'' ''-'' 0 = ''a-a-a-a''"
  by (simp add: regexReplace_def ReplaceAllStringFunc_def ReplaceAllString_def literal_def
      matchText_def)

lemma rebuild_cong:
  "(\<And>i m. m \<in> set ms \<Longrightarrow> g i m = g' i m) \<Longrightarrow> rebuild g src e0 k ms = rebuild g' src e0 k ms"
  by (induction ms arbitrary: e0 k) simp_all

text \<open>
  For every compiled regex, input, replacement and limit the closures select by
  occurrence index: the matches below a positive limit, the matches from
  \<open>total + limit\<close> on for a negative one.  What they put in the place of a selected match
  is the regex run again on the text of that match.
\<close>

lemma regexReplace_selects:
  "(limit = 0 \<longrightarrow>
      regexReplace regex input replacement limit =
        replaceWhere (\<lambda>i. True) regex input replacement) \<and>
   (limit > 0 \<longrightarrow>
      regexReplace regex input replacement limit =
        rerunWhere (\<lambda>i. int i < limit) regex input replacement) \<and>
   (limit < 0 \<longrightarrow>
      regexReplace regex input replacement limit =
        rerunWhere (\<lambda>i. int i \<ge> int (length (FindAllString regex input)) + limit)
          regex input replacement)"
proof -
  let ?h = "\<lambda>m. ReplaceAllString regex (matchText input m) replacement"
  let ?total = "int (length (FindAllString regex input))"
  have zero: "limit = 0 \<longrightarrow>
      regexReplace regex input replacement limit =
        replaceWhere (\<lambda>i. True) regex input replacement"
    by (simp add: regexReplace_def ReplaceAllString_def replaceWhere_def
        rebuild_all [where k = 0])
  have pos: "limit > 0 \<longrightarrow>
      regexReplace regex input replacement limit =
        rerunWhere (\<lambda>i. int i < limit) regex input replacement"
  proof
    assume l: "limit > 0"
    then have "(0::int) = min (int 0) limit" "0 \<le> limit" by simp_all
    from replaceAll_first [where src = input and h = ?h and ms = "allMatches regex input"
        and ?e0.0 = 0, OF this] l
    show "regexReplace regex input replacement limit =
        rerunWhere (\<lambda>i. int i < limit) regex input replacement"
      by (simp add: regexReplace_def ReplaceAllStringFunc_def rerunWhere_def)
  qed
  have neg: "limit < 0 \<longrightarrow> regexReplace regex input replacement limit =
        rerunWhere (\<lambda>i. int i \<ge> ?total + limit) regex input replacement"
  proof
    assume l: "limit < 0"
    have "(0::int) = (if int 0 \<ge> ?total + limit then max (?total + limit) 0 else int 0)"
      by simp
    from replaceAll_last [where src = input and h = ?h and ms = "allMatches regex input"
        and ?e0.0 = 0, OF this] l
    show "regexReplace regex input replacement limit =
        rerunWhere (\<lambda>i. int i \<ge> ?total + limit) regex input replacement"
      by (simp add: regexReplace_def ReplaceAllStringFunc_def rerunWhere_def Let_def)
  qed
  from zero pos neg show ?thesis by blast
qed

text \<open>
  Where running the regex again on the text of a match gives the expansion that the match
  has in the input, the selected matches are replaced as the specification says.
\<close>

lemma regexReplace_in_context:
  assumes "\<forall>m \<in> set (allMatches regex input).
             ReplaceAllString regex (matchText input m) replacement = expand regex replacement m"
  shows "(limit > 0 \<longrightarrow>
      regexReplace regex input replacement limit =
        replaceWhere (\<lambda>i. int i < limit) regex input replacement) \<and>
   (limit < 0 \<longrightarrow>
      regexReplace regex input replacement limit =
        replaceWhere (\<lambda>i. int i \<ge> int (length (FindAllString regex input)) + limit)
          regex input replacement)"
proof -
  have "rerunWhere sel regex input replacement = replaceWhere sel regex input replacement"
    for sel
    unfolding rerunWhere_def replaceWhere_def
    by (rule rebuild_cong) (use assms in simp)
  with regexReplace_selects [of limit regex input replacement] show ?thesis by simp
qed

text \<open>
  Claim C1.  Pattern X over aXaXaXa with replacement - gives a-aXaXa at limit 1, aXaXa-a
  at limit -1 and a-a-a-a at limit 0.  The sign-of-limit semantics does not hold for every
  compiled regex: the pattern \<open>\Ba\<close> has one match in aa, the second letter.  At limit
  0 that match is replaced and the result is a-.  At limit 1 and at limit -1 the match is
  selected, and replacing the selected match gives a- again, but \<open>regexReplace\<close>
  returns aa: the regex run again on the text a of the match finds nothing.
\<close>

theorem regexReplace_reruns_on_match_text:
  "regexReplace (literal ''X'') ''aXaXaXa'' ''-'' 1 = ''a-aXaXa'' \<and>
   regexReplace (literal ''X'') ''aXaXaXa'' ''-'' (- 1) = ''aXaXa-a'' \<and>
   regexReplace (literal ''X'') ''aXaXaXa'' ''-'' 0 = ''a-a-a-a'' \<and>
   FindAllString notBoundaryA ''aa'' = [''a''] \<and>
   regexReplace notBoundaryA ''aa'' ''-'' 0 = ''a-'' \<and>
   replaceWhere (\<lambda>i. int i < 1) notBoundaryA ''aa'' ''-'' = ''a-'' \<and>
   regexReplace notBoundaryA ''aa'' ''-'' 1 = ''aa'' \<and>
   replaceWhere (\<lambda>i. int i \<ge> int (length (FindAllString notBoundaryA ''aa'')) + (- 1))
     notBoundaryA ''aa'' ''-'' = ''a-'' \<and>
   regexReplace notBoundaryA ''aa'' ''-'' (- 1) = ''aa''"
proof -
  have found: "FindAllString notBoundaryA ''aa'' = [''a'']"
    by (simp add: FindAllString_def notBoundaryA_def isWordChar_def matchText_def)
  have all: "regexReplace notBoundaryA ''aa'' ''-'' 0 = ''a-''"
    by (simp add: regexReplace_def ReplaceAllString_def notBoundaryA_def isWordChar_def)
  have first_spec: "replaceWhere (\<lambda>i. int i < 1) notBoundaryA ''aa'' ''-'' = ''a-''"
    by (simp add: replaceWhere_def notBoundaryA_def isWordChar_def)
  have first_code: "regexReplace notBoundaryA ''aa'' ''-'' 1 = ''aa''"
    by (simp add: regexReplace_def ReplaceAllStringFunc_def ReplaceAllString_def
        notBoundaryA_def isWordChar_def matchText_def)
  have last_spec:
    "replaceWhere (\<lambda>i. int i \<ge> int (length (FindAllString notBoundaryA ''aa'')) + (- 1))
       notBoundaryA ''aa'' ''-'' = ''a-''"
    unfolding found by (simp add: replaceWhere_def notBoundaryA_def isWordChar_def)
  have last_code: "regexReplace notBoundaryA ''aa'' ''-'' (- 1) = ''aa''"
    by (simp add: regexReplace_def ReplaceAllStringFunc_def ReplaceAllString_def
        FindAllString_def notBoundaryA_def isWordChar_def matchText_def)
  from regexReplace_X_first regexReplace_X_last regexReplace_X_all found all first_spec
    first_code last_spec last_code
  show ?thesis by blast
qed

subsection \<open>Loops that return at the first failure\<close>

lemma forEach_reaches_failure:
  "forEach body pre = Inr ys \<Longrightarrow> body x = Inl f \<Longrightarrow> forEach body (pre @ x # post) = Inl f"
  by (induction pre arbitrary: ys) (auto split: sum.splits)

lemma forEach_reaches_failure':
  "\<not> isl (forEach body pre) \<Longrightarrow> body x = Inl f \<Longrightarrow> forEach body (pre @ x # post) = Inl f"
  by (cases "forEach body pre") (auto intro: forEach_reaches_failure)

lemma indexLoop_reaches_failure:
  "\<not> isl (indexLoop e i pre acc) \<Longrightarrow> indexMatch e x = Inl f \<Longrightarrow>
   indexLoop e i (pre @ x # post) acc = Inl f"
  by (induction pre arbitrary: i acc) (auto split: sum.splits)

lemma MatchString_submatch:
  "MatchString re t \<longleftrightarrow> FindAllStringSubmatch re t \<noteq> []"
  by (simp add: MatchString_def FindAllStringSubmatch_def)

lemma filename_short:
  assumes "FindAllStringSubmatch (filenameVarRegex e) t = pre @ sm # post"
    and "\<not> isl (forEach (filenameMatch e) pre)" and "length sm < 2"
  shows "getFilenameVars e t = Inl (Error errInvalidSubmatches)"
proof -
  have "filenameMatch e sm = Inl (Error errInvalidSubmatches)"
    using assms(3) by (simp add: filenameMatch_def)
  from forEach_reaches_failure' [OF assms(2) this, of post] assms(1)
  show ?thesis by (simp add: getFilenameVars_def MatchString_submatch)
qed

lemma index_short:
  assumes "FindAllStringSubmatch (indexVarRegex e) t = pre @ sm # post"
    and "\<not> isl (indexLoop e 0 pre \<lparr>index_matches = [], capturVarIndex = [], index_offset = []\<rparr>)"
    and "length sm < 8"
  shows "getIndexingVars e t = Inl (Panic errInvalidSubmatches)"
proof -
  have "indexMatch e sm = Inl (Panic errInvalidSubmatches)"
    using assms(3) by (simp add: indexMatch_def)
  from indexLoop_reaches_failure [OF assms(2) this, of post] assms(1)
  show ?thesis by (simp add: getIndexingVars_def)
qed

lemma bitlen_le: "a < 2 ^ k \<Longrightarrow> bitlen a \<le> k"
proof (induction k arbitrary: a)
  case 0
  then show ?case by (simp add: bitlen.simps)
next
  case (Suc k)
  have "a div 2 < 2 ^ k" using Suc.prems by simp
  from Suc.IH [OF this] show ?case by (subst bitlen.simps) simp
qed

lemma float64_exact: "\<bar>n\<bar> \<le> 2 ^ 53 \<Longrightarrow> float64 n = n"
proof (cases "\<bar>n\<bar> = 2 ^ 53")
  case True
  then have "n = 2 ^ 53 \<or> n = - (2 ^ 53)" by (simp add: abs_if split: if_splits)
  then show ?thesis by (elim disjE; hypsubst) code_simp+
next
  case False
  assume "\<bar>n\<bar> \<le> 2 ^ 53"
  with False have "\<bar>n\<bar> < 2 ^ 53" by simp
  then have "bitlen \<bar>n\<bar> - 53 = 0" using bitlen_le [of "\<bar>n\<bar>" 53] by simp
  then show ?thesis by (simp add: float64_def Let_def mult_sgn_abs)
qed

subsection \<open>Extensions and white space\<close>

lemma spaceAt_0: "[] \<notin> set ws \<Longrightarrow> spaceAt ws s = 0 \<longleftrightarrow> (\<forall>w \<in> set ws. \<not> prefix w s)"
proof -
  assume ne: "[] \<notin> set ws"
  show ?thesis
  proof (cases "filter (\<lambda>w. prefix w s) ws")
    case Nil
    then show ?thesis by (simp add: spaceAt_def filter_empty_conv)
  next
    case (Cons w rest)
    then have "w \<in> set (filter (\<lambda>w. prefix w s) ws)" by simp
    then have w: "w \<in> set ws" "prefix w s" by simp_all
    with ne have "w \<noteq> []" by auto
    with Cons w show ?thesis by (auto simp: spaceAt_def)
  qed
qed

lemma trimLeading_suffix: "suffix (trimLeading ws s) s"
proof (induction ws s rule: trimLeading.induct)
  case (1 ws s)
  show ?case
  proof (cases "spaceAt ws s = 0 \<or> s = []")
    case True
    then show ?thesis by (subst trimLeading.simps) simp
  next
    case False
    from 1 [OF False] have "suffix (trimLeading ws (drop (spaceAt ws s) s)) s"
      by (meson suffix_drop suffix_order.trans)
    with False show ?thesis by (subst trimLeading.simps) simp
  qed
qed

lemma trimLeading_done:
  "trimLeading ws s = [] \<or> spaceAt ws (trimLeading ws s) = 0"
proof (induction ws s rule: trimLeading.induct)
  case (1 ws s)
  show ?case
  proof (cases "spaceAt ws s = 0 \<or> s = []")
    case True
    then show ?thesis by (subst (1 2) trimLeading.simps) auto
  next
    case False
    with 1 [OF False] show ?thesis by (subst (1 2) trimLeading.simps) simp
  qed
qed

lemma trimLeading_fixed: "s = [] \<or> spaceAt ws s = 0 \<Longrightarrow> trimLeading ws s = s"
  by (subst trimLeading.simps) auto

lemma whiteSpace_nonempty: "[] \<notin> set whiteSpace" "[] \<notin> set (map rev whiteSpace)"
  by (simp_all add: whiteSpace_def)

lemma TrimSpace_idem: "TrimSpace (TrimSpace s) = TrimSpace s"
proof -
  define a where "a = trimLeading whiteSpace s"
  define b where "b = trimLeading (map rev whiteSpace) (rev a)"
  have ts: "TrimSpace s = rev b" by (simp add: TrimSpace_def a_def b_def)
  have "suffix b (rev a)" unfolding b_def by (rule trimLeading_suffix)
  then have pre: "prefix (rev b) a" by (metis rev_rev_ident suffix_to_prefix)
  have left: "trimLeading whiteSpace (rev b) = rev b"
  proof (rule trimLeading_fixed, cases "rev b = []")
    case True
    then show "rev b = [] \<or> spaceAt whiteSpace (rev b) = 0" by simp
  next
    case False
    with pre have "a \<noteq> []" by auto
    with trimLeading_done [of whiteSpace s] have "spaceAt whiteSpace a = 0" by (simp add: a_def)
    then have "\<forall>w \<in> set whiteSpace. \<not> prefix w a"
      by (simp add: spaceAt_0 [OF whiteSpace_nonempty(1)])
    with pre have "\<forall>w \<in> set whiteSpace. \<not> prefix w (rev b)"
      by (meson prefix_order.trans)
    then show "rev b = [] \<or> spaceAt whiteSpace (rev b) = 0"
      by (simp add: spaceAt_0 [OF whiteSpace_nonempty(1)])
  qed
  have right: "trimLeading (map rev whiteSpace) b = b"
    using trimLeading_done [of "map rev whiteSpace" "rev a"]
    by (intro trimLeading_fixed) (simp add: b_def)
  show ?thesis unfolding ts by (simp add: TrimSpace_def left right)
qed

subsection \<open>The pass over the matches\<close>

lemma extScan_suffix: "\<exists>p. rev cs @ acc = p @ extScan cs acc"
proof (induction cs arbitrary: acc)
  case Nil
  show ?case by simp
next
  case (Cons c cs)
  show ?case
  proof (cases "c = CHR ''/''")
    case True
    then show ?thesis by simp
  next
    case False
    show ?thesis
    proof (cases "c = CHR ''.''")
      case True
      then show ?thesis by simp
    next
      case dot: False
      from Cons.IH [of "c # acc"] False dot show ?thesis by simp
    qed
  qed
qed

lemma Ext_suffix: "suffix (Ext path) path"
  using extScan_suffix [of "rev path" "[]"] by (auto simp: Ext_def suffix_def)

lemma StripExtension_Ext: "StripExtension fileName @ Ext fileName = fileName"
proof -
  from Ext_suffix obtain p where p: "fileName = p @ Ext fileName"
    by (auto simp: suffix_def)
  then have "length fileName - length (Ext fileName) = length p"
    by (metis add_diff_cancel_right' length_append)
  with p show ?thesis
    by (metis StripExtension_def append_eq_conv_conj)
qed

lemma replaceOne_result:
  "snd (replaceOne e conf vars i c) = Inr (c', vars') \<longleftrightarrow>
   (\<exists>name.
      substitute e conf
        (c\<lparr>Index := int i,
           Target := replaceString conf
             (if IgnoreExt conf \<and> \<not> IsDir c then StripExtension (Source c) else Source c)\<rparr>)
        vars = Inr (name, vars') \<and>
      c' = c\<lparr>Index := int i,
             Target := TrimSpace (Clean (name @
               (if IgnoreExt conf \<and> \<not> IsDir c then Ext (Source c) else []))),
             Status := OK,
             RelTargetPath := Join [BaseDir c, TrimSpace (Clean (name @
               (if IgnoreExt conf \<and> \<not> IsDir c then Ext (Source c) else [])))]\<rparr>)"
  by (auto simp: replaceOne_def replaceVariables_def Let_def split: sum.splits prod.splits)

lemma replaceOne_failure:
  "snd (replaceOne e conf vars i c) = Inl f \<longleftrightarrow>
   substitute e conf
     (c\<lparr>Index := int i,
        Target := replaceString conf
          (if IgnoreExt conf \<and> \<not> IsDir c then StripExtension (Source c) else Source c)\<rparr>)
     vars = Inl f"
  by (auto simp: replaceOne_def replaceVariables_def Let_def split: sum.splits prod.splits)

lemma replaceLoop_Cons_Inr:
  "snd (replaceLoop e conf vars i (c # rest)) = Inr (out, vars'') \<longleftrightarrow>
   (\<exists>c' vars' out'. snd (replaceOne e conf vars i c) = Inr (c', vars') \<and>
      snd (replaceLoop e conf vars' (Suc i) rest) = Inr (out', vars'') \<and> out = c' # out')"
  by (auto split: sum.splits prod.splits)

lemma replaceLoop_reaches_failure:
  "snd (replaceLoop e conf vars i pre) = Inr (out, vars') \<Longrightarrow>
   snd (replaceOne e conf vars' (i + length pre) c) = Inl f \<Longrightarrow>
   snd (replaceLoop e conf vars i (pre @ c # post)) = Inl f"
proof (induction pre arbitrary: vars i out)
  case Nil
  then show ?case by (auto split: sum.splits prod.splits)
next
  case (Cons p pre)
  from Cons.prems(1) [unfolded replaceLoop_Cons_Inr] obtain c' v1 out' where
    one: "snd (replaceOne e conf vars i p) = Inr (c', v1)" and
    rest: "snd (replaceLoop e conf v1 (Suc i) pre) = Inr (out', vars')"
    by blast
  from Cons.prems(2) have "snd (replaceOne e conf vars' (Suc i + length pre) c) = Inl f"
    by simp
  from Cons.IH [OF rest this] one show ?case
    by (auto split: sum.splits prod.splits)
qed

lemma replaceLoop_elements:
  "snd (replaceLoop e conf vars i batch) = Inr (out, vars') \<Longrightarrow>
   length out = length batch \<and>
   (\<forall>k < length batch. \<exists>v v'. snd (replaceOne e conf v (i + k) (batch ! k)) = Inr (out ! k, v'))"
proof (induction batch arbitrary: vars i out)
  case Nil
  then show ?case by simp
next
  case (Cons c rest)
  from Cons.prems [unfolded replaceLoop_Cons_Inr] obtain c' v1 out' where
    one: "snd (replaceOne e conf vars i c) = Inr (c', v1)" and
    rest: "snd (replaceLoop e conf v1 (Suc i) rest) = Inr (out', vars')" and
    out: "out = c' # out'"
    by blast
  from Cons.IH [OF rest] have len: "length out' = length rest" and
    el: "\<And>k. k < length rest \<Longrightarrow>
          \<exists>v v'. snd (replaceOne e conf v (Suc i + k) (rest ! k)) = Inr (out' ! k, v')"
    by auto
  show ?case
  proof (intro conjI allI impI)
    show "length out = length (c # rest)" using len out by simp
  next
    fix k assume k: "k < length (c # rest)"
    show "\<exists>v v'. snd (replaceOne e conf v (i + k) ((c # rest) ! k)) = Inr (out ! k, v')"
    proof (cases k)
      case 0
      with one out show ?thesis by auto
    next
      case (Suc j)
      with k have "j < length rest" by simp
      from el [OF this] Suc out show ?thesis by simp
    qed
  qed
qed

lemma snd_replaceMatches:
  "snd (replaceMatches e conf ms) =
   (case extractVariables e (Replacement conf) of
      Inl f \<Rightarrow> Inl f
    | Inr vars \<Rightarrow>
        map_sum id fst
          (snd (replaceLoop e conf vars 0
                  (if length (index_matches (v_index vars)) > 0
                   then EnforceHierarchicalOrder e ms else ms))))"
  by (simp add: replaceMatches_def split: sum.splits prod.splits)

lemma map_sum_fst_Inr: "map_sum id fst r = Inr out \<longleftrightarrow> (\<exists>v. r = Inr (out, v))"
  by (cases r) auto

lemma replaceMatches_Inr:
  "snd (replaceMatches e conf ms) = Inr out \<longleftrightarrow>
   (\<exists>vars vars'. extractVariables e (Replacement conf) = Inr vars \<and>
      snd (replaceLoop e conf vars 0
             (if length (index_matches (v_index vars)) > 0 then EnforceHierarchicalOrder e ms
              else ms)) = Inr (out, vars'))"
  by (cases "extractVariables e (Replacement conf)")
    (simp_all add: snd_replaceMatches map_sum_fst_Inr)

subsection \<open>The chain\<close>

lemma chainLoop_failure:
  "snd (replaceMatches e (SetReplacement conf v) ms) = Inl f \<Longrightarrow>
   chainLoop e n conf i (v # vs) ms =
     (''executing find and replace'' # fst (replaceMatches e (SetReplacement conf v) ms), Inl f)"
  by (cases "replaceMatches e (SetReplacement conf v) ms") simp

lemma chainLoop_final:
  "snd (replaceMatches e (SetReplacement conf v) ms) = Inr matches1 \<Longrightarrow>
   n = 1 \<or> (i > 0 \<and> int i = int n - 1) \<Longrightarrow>
   chainLoop e n conf i (v # vs) ms =
     (''executing find and replace'' # fst (replaceMatches e (SetReplacement conf v) ms) @
      [''find/replace result''], Inr (SetReplacement conf v, matches1))"
  by (cases "replaceMatches e (SetReplacement conf v) ms") auto

lemma chainLoop_recompile_failure:
  "snd (replaceMatches e (SetReplacement conf v) ms) = Inr matches1 \<Longrightarrow>
   \<not> (n = 1 \<or> (i > 0 \<and> int i = int n - 1)) \<Longrightarrow>
   SetFindStringRegex e (SetReplacement conf v) (int i + 1) = Inl x \<Longrightarrow>
   chainLoop e n conf i (v # vs) ms =
     (''executing find and replace'' # fst (replaceMatches e (SetReplacement conf v) ms) @
      [''find/replace result'', ''updated sources for next find/replace''], Inl (Error x))"
  by (cases "replaceMatches e (SetReplacement conf v) ms") auto

lemma chainLoop_next:
  "snd (replaceMatches e (SetReplacement conf v) ms) = Inr matches1 \<Longrightarrow>
   \<not> (n = 1 \<or> (i > 0 \<and> int i = int n - 1)) \<Longrightarrow> int i \<noteq> int n - 1 \<Longrightarrow>
   SetFindStringRegex e (SetReplacement conf v) (int i + 1) = Inr conf2 \<Longrightarrow>
   chainLoop e n conf i (v # vs) ms =
     (''executing find and replace'' # fst (replaceMatches e (SetReplacement conf v) ms) @
      [''find/replace result'', ''updated sources for next find/replace''] @
      fst (chainLoop e n conf2 (Suc i) vs
             (map (\<lambda>change. change\<lparr>Source := Target change\<rparr>) matches1)),
      snd (chainLoop e n conf2 (Suc i) vs
             (map (\<lambda>change. change\<lparr>Source := Target change\<rparr>) matches1)))"
  by (cases "replaceMatches e (SetReplacement conf v) ms")
    (auto simp: Let_def split: prod.splits)

declare chainLoop.simps(2) [simp del]

lemma chainLoop_spec:
  "i + length vs = n \<Longrightarrow> snd (chainLoop e n conf i vs ms) = chainSpec e conf i vs ms"
proof (induction vs arbitrary: conf i ms)
  case Nil
  show ?case by simp
next
  case (Cons v vs)
  let ?r = "snd (replaceMatches e (SetReplacement conf v) ms)"
  show ?case
  proof (cases ?r)
    case (Inl f)
    from chainLoop_failure [OF this] Inl show ?thesis by (cases vs) simp_all
  next
    case (Inr matches1)
    show ?thesis
    proof (cases vs)
      case Nil
      with Cons.prems have "n = 1 \<or> (i > 0 \<and> int i = int n - 1)" by auto
      from chainLoop_final [OF Inr this] Inr Nil show ?thesis by simp
    next
      case (Cons w ws)
      with Cons.prems have far: "\<not> (n = 1 \<or> (i > 0 \<and> int i = int n - 1))"
        and far': "int i \<noteq> int n - 1"
        by auto
      from Cons.prems have n: "Suc i + length vs = n" by simp
      show ?thesis
      proof (cases "SetFindStringRegex e (SetReplacement conf v) (int i + 1)")
        case (Inl x)
        from chainLoop_recompile_failure [OF Inr far Inl] Inr Inl Cons show ?thesis by simp
      next
        case conf2: (Inr conf2)
        from chainLoop_next [OF Inr far far' conf2] Cons.IH [OF n] Inr conf2 Cons
        show ?thesis by simp
      qed
    qed
  qed
qed

lemma chainLoop_reaches_failure:
  "i + length pre + 1 + length post = n \<Longrightarrow>
   snd (chainLoop e n conf i pre ms) = Inr (confk, msk) \<Longrightarrow>
   snd (replaceMatches e (SetReplacement confk v) msk) = Inl f \<Longrightarrow>
   snd (chainLoop e n conf i (pre @ v # post) ms) = Inl f"
proof (induction pre arbitrary: conf i ms)
  case Nil
  then have "conf = confk" "ms = msk" by simp_all
  with chainLoop_failure [OF Nil.prems(3)] show ?case by simp
next
  case (Cons p pre)
  from Cons.prems(1) have far: "\<not> (n = 1 \<or> (i > 0 \<and> int i = int n - 1))"
    and far': "int i \<noteq> int n - 1"
    by auto
  from Cons.prems(1) have n: "Suc i + length pre + 1 + length post = n" by simp
  show ?case
  proof (cases "snd (replaceMatches e (SetReplacement conf p) ms)")
    case (Inl g)
    from chainLoop_failure [OF this] Cons.prems(2) show ?thesis by simp
  next
    case (Inr matches1)
    show ?thesis
    proof (cases "SetFindStringRegex e (SetReplacement conf p) (int i + 1)")
      case (Inl x)
      from chainLoop_recompile_failure [OF Inr far Inl] Cons.prems(2) show ?thesis by simp
    next
      case conf2: (Inr conf2)
      let ?ms2 = "map (\<lambda>change. change\<lparr>Source := Target change\<rparr>) matches1"
      from chainLoop_next [OF Inr far far' conf2, of pre] Cons.prems(2)
      have "snd (chainLoop e n conf2 (Suc i) pre ?ms2) = Inr (confk, msk)" by simp
      from Cons.IH [OF n this Cons.prems(3)]
        chainLoop_next [OF Inr far far' conf2, of "pre @ v # post"]
      show ?thesis by simp
    qed
  qed
qed

lemma reorderings_append: "reorderings (a @ b) = reorderings a + reorderings b"
  by (simp add: reorderings_def)

lemma reorderings_replaceOne: "reorderings (fst (replaceOne e conf vars i c)) = 0"
  by (simp add: replaceOne_def reorderings_def Let_def split: sum.splits prod.splits)

lemma reorderings_replaceLoop: "reorderings (fst (replaceLoop e conf vars i batch)) = 0"
proof (induction batch arbitrary: vars i)
  case Nil
  show ?case by (simp add: reorderings_def)
next
  case (Cons c rest)
  obtain l r where one: "replaceOne e conf vars i c = (l, r)" by (cases "replaceOne e conf vars i c")
  with reorderings_replaceOne [of e conf vars i c] have l: "reorderings l = 0" by simp
  show ?case
  proof (cases r)
    case (Inl f)
    with one l show ?thesis by simp
  next
    case (Inr p)
    obtain c' vars' where p: "p = (c', vars')" by (cases p)
    obtain l' r' where rest: "replaceLoop e conf vars' (Suc i) rest = (l', r')"
      by (cases "replaceLoop e conf vars' (Suc i) rest")
    with Cons.IH [of vars' "Suc i"] have "reorderings l' = 0" by simp
    with one Inr p rest l show ?thesis
      by (simp add: reorderings_append split: sum.splits prod.splits)
  qed
qed

lemma reorderings_replaceMatches:
  "\<not> isl (snd (replaceMatches e conf ms)) \<Longrightarrow>
   reorderings (fst (replaceMatches e conf ms)) =
     (if hasIndexToken e (Replacement conf) then 1 else 0)"
proof (cases "extractVariables e (Replacement conf)")
  case (Inl f)
  assume "\<not> isl (snd (replaceMatches e conf ms))"
  with Inl show ?thesis by (simp add: replaceMatches_def)
next
  case (Inr vars)
  let ?b = "if length (index_matches (v_index vars)) > 0 then EnforceHierarchicalOrder e ms else ms"
  obtain l r where lr: "replaceLoop e conf vars 0 ?b = (l, r)"
    by (cases "replaceLoop e conf vars 0 ?b")
  with reorderings_replaceLoop [of e conf vars 0 ?b] have "reorderings l = 0" by simp
  with Inr lr show ?thesis
    by (auto simp: replaceMatches_def hasIndexToken_def reorderings_def split: if_splits)
qed

lemma reorderings_chainLoop:
  "i + length vs = n \<Longrightarrow> \<not> isl (snd (chainLoop e n conf i vs ms)) \<Longrightarrow>
   reorderings (fst (chainLoop e n conf i vs ms)) = length (filter (hasIndexToken e) vs)"
proof (induction vs arbitrary: conf i ms)
  case Nil
  show ?case by (simp add: reorderings_def)
next
  case (Cons v vs)
  let ?r = "replaceMatches e (SetReplacement conf v) ms"
  have repl: "Replacement (SetReplacement conf v) = v" by (simp add: SetReplacement_def)
  show ?case
  proof (cases "snd ?r")
    case (Inl f)
    from chainLoop_failure [OF this] Cons.prems(2) show ?thesis by simp
  next
    case (Inr matches1)
    then have "\<not> isl (snd ?r)" by simp
    from reorderings_replaceMatches [OF this] repl
    have one: "reorderings (fst ?r) = (if hasIndexToken e v then 1 else 0)" by simp
    have msgs: "reorderings (''executing find and replace'' # l @ l') =
        reorderings l + reorderings l'" for l l'
      by (simp add: reorderings_def)
    have none: "reorderings [''find/replace result''] = 0"
      "reorderings (''find/replace result'' # ''updated sources for next find/replace'' # l) =
         reorderings l" for l
      by (simp_all add: reorderings_def)
    show ?thesis
    proof (cases "n = 1 \<or> (i > 0 \<and> int i = int n - 1)")
      case True
      with Cons.prems(1) have vs: "vs = []" by auto
      from chainLoop_final [OF Inr True, of vs] one vs show ?thesis
        by (simp add: msgs none)
    next
      case False
      with Cons.prems(1) have far': "int i \<noteq> int n - 1" by auto
      show ?thesis
      proof (cases "SetFindStringRegex e (SetReplacement conf v) (int i + 1)")
        case (Inl x)
        from chainLoop_recompile_failure [OF Inr False Inl] Cons.prems(2) show ?thesis by simp
      next
        case conf2: (Inr conf2)
        let ?ms2 = "map (\<lambda>change. change\<lparr>Source := Target change\<rparr>) matches1"
        from Cons.prems(1) have n: "Suc i + length vs = n" by simp
        note step = chainLoop_next [OF Inr False far' conf2, of vs]
        from step Cons.prems(2)
        have ok: "\<not> isl (snd (chainLoop e n conf2 (Suc i) vs ?ms2))" by simp
        from Cons.IH [OF n ok] step one show ?thesis
          by (simp add: msgs none)
      qed
    qed
  qed
qed

subsection \<open>The lexicons\<close>

lemma getter_reaches_failure:
  assumes "FindAllStringSubmatch re t = pre @ sm # post" and "\<not> isl (forEach body pre)"
    and "body sm = Inl f"
  shows "MatchString re t \<and> forEach body (FindAllStringSubmatch re t) = Inl f"
  using forEach_reaches_failure' [OF assms(2,3), of post] assms(1)
  by (simp add: MatchString_submatch)

text \<open>
  The outcome when the loop of a lexicon reaches a submatch that is too short, the
  submatches before it having been used without failure.  Below the length its guard
  expects, each of the ten lexicons other than the index lexicon returns
  \<open>errInvalidSubmatches\<close> and the index lexicon panics.  The exif and id3 lexicons read
  one element more than their guards expect: on a submatch of exactly the expected length
  that compiles they panic with an index out of range.
\<close>

lemma short_submatch_outcome:
  "(FindAllStringSubmatch (filenameVarRegex e) t = pre @ sm # post \<and>
    \<not> isl (forEach (filenameMatch e) pre) \<and> length sm < 2 \<longrightarrow>
      getFilenameVars e t = Inl (Error errInvalidSubmatches)) \<and>
   (FindAllStringSubmatch (extensionVarRegex e) t = pre @ sm # post \<and>
    \<not> isl (forEach (extMatch e) pre) \<and> length sm < 2 \<longrightarrow>
      getExtVars e t = Inl (Error errInvalidSubmatches)) \<and>
   (FindAllStringSubmatch (parentDirVarRegex e) t = pre @ sm # post \<and>
    \<not> isl (forEach (parentDirMatch e) pre) \<and> length sm < 3 \<longrightarrow>
      getParentDirVars e t = Inl (Error errInvalidSubmatches)) \<and>
   (FindAllStringSubmatch (exifVarRegex e) t = pre @ sm # post \<and>
    \<not> isl (forEach (exifMatch e) pre) \<and> length sm < 4 \<longrightarrow>
      getExifVars e t = Inl (Error errInvalidSubmatches)) \<and>
   (FindAllStringSubmatch (id3VarRegex e) t = pre @ sm # post \<and>
    \<not> isl (forEach (id3Match e) pre) \<and> length sm < 2 \<longrightarrow>
      getID3Vars e t = Inl (Error errInvalidSubmatches)) \<and>
   (FindAllStringSubmatch (hashVarRegex e) t = pre @ sm # post \<and>
    \<not> isl (forEach (hashMatch e) pre) \<and> length sm < 3 \<longrightarrow>
      getHashVars e t = Inl (Error errInvalidSubmatches)) \<and>
   (FindAllStringSubmatch (dateVarRegex e) t = pre @ sm # post \<and>
    \<not> isl (forEach (dateMatch e) pre) \<and> length sm < 4 \<longrightarrow>
      getDateVars e t = Inl (Error errInvalidSubmatches)) \<and>
   (FindAllStringSubmatch (exiftoolVarRegex e) t = pre @ sm # post \<and>
    \<not> isl (forEach (exiftoolMatch e) pre) \<and> length sm < 3 \<longrightarrow>
      getExifToolVars e t = Inl (Error errInvalidSubmatches)) \<and>
   (FindAllStringSubmatch (transformVarRegex e) t = pre @ sm # post \<and>
    \<not> isl (forEach (transformMatch e) pre) \<and> length sm < 5 \<longrightarrow>
      getTransformVars e t = Inl (Error errInvalidSubmatches)) \<and>
   (FindAllStringSubmatch (csvVarRegex e) t = pre @ sm # post \<and>
    \<not> isl (forEach (csvMatch e) pre) \<and> length sm < 3 \<longrightarrow>
      getCSVVars e t = Inl (Error errInvalidSubmatches)) \<and>
   (FindAllStringSubmatch (indexVarRegex e) t = pre @ sm # post \<and>
    \<not> isl (indexLoop e 0 pre \<lparr>index_matches = [], capturVarIndex = [], index_offset = []\<rparr>) \<and>
    length sm < 8 \<longrightarrow>
      getIndexingVars e t = Inl (Panic errInvalidSubmatches)) \<and>
   (FindAllStringSubmatch (exifVarRegex e) t = pre @ sm # post \<and>
    \<not> isl (forEach (exifMatch e) pre) \<and> length sm = 4 \<and> \<not> isl (Compile e (sm ! 0)) \<longrightarrow>
      getExifVars e t = Inl (IndexOutOfRange 4 4)) \<and>
   (FindAllStringSubmatch (id3VarRegex e) t = pre @ sm # post \<and>
    \<not> isl (forEach (id3Match e) pre) \<and> length sm = 2 \<and> \<not> isl (Compile e (sm ! 0)) \<longrightarrow>
      getID3Vars e t = Inl (IndexOutOfRange 2 2))"
proof (intro conjI impI; elim conjE)
  assume "FindAllStringSubmatch (filenameVarRegex e) t = pre @ sm # post"
    "\<not> isl (forEach (filenameMatch e) pre)" "length sm < 2"
  from getter_reaches_failure [OF this(1,2), of "Error errInvalidSubmatches"] this(3)
  show "getFilenameVars e t = Inl (Error errInvalidSubmatches)"
    by (simp add: getFilenameVars_def filenameMatch_def)
next
  assume "FindAllStringSubmatch (extensionVarRegex e) t = pre @ sm # post"
    "\<not> isl (forEach (extMatch e) pre)" "length sm < 2"
  from getter_reaches_failure [OF this(1,2), of "Error errInvalidSubmatches"] this(3)
  show "getExtVars e t = Inl (Error errInvalidSubmatches)"
    by (simp add: getExtVars_def extMatch_def)
next
  assume "FindAllStringSubmatch (parentDirVarRegex e) t = pre @ sm # post"
    "\<not> isl (forEach (parentDirMatch e) pre)" "length sm < 3"
  from getter_reaches_failure [OF this(1,2), of "Error errInvalidSubmatches"] this(3)
  show "getParentDirVars e t = Inl (Error errInvalidSubmatches)"
    by (simp add: getParentDirVars_def parentDirMatch_def)
next
  assume "FindAllStringSubmatch (exifVarRegex e) t = pre @ sm # post"
    "\<not> isl (forEach (exifMatch e) pre)" "length sm < 4"
  from getter_reaches_failure [OF this(1,2), of "Error errInvalidSubmatches"] this(3)
  show "getExifVars e t = Inl (Error errInvalidSubmatches)"
    by (simp add: getExifVars_def exifMatch_def)
next
  assume "FindAllStringSubmatch (id3VarRegex e) t = pre @ sm # post"
    "\<not> isl (forEach (id3Match e) pre)" "length sm < 2"
  from getter_reaches_failure [OF this(1,2), of "Error errInvalidSubmatches"] this(3)
  show "getID3Vars e t = Inl (Error errInvalidSubmatches)"
    by (simp add: getID3Vars_def id3Match_def)
next
  assume "FindAllStringSubmatch (hashVarRegex e) t = pre @ sm # post"
    "\<not> isl (forEach (hashMatch e) pre)" "length sm < 3"
  from getter_reaches_failure [OF this(1,2), of "Error errInvalidSubmatches"] this(3)
  show "getHashVars e t = Inl (Error errInvalidSubmatches)"
    by (simp add: getHashVars_def hashMatch_def)
next
  assume "FindAllStringSubmatch (dateVarRegex e) t = pre @ sm # post"
    "\<not> isl (forEach (dateMatch e) pre)" "length sm < 4"
  from getter_reaches_failure [OF this(1,2), of "Error errInvalidSubmatches"] this(3)
  show "getDateVars e t = Inl (Error errInvalidSubmatches)"
    by (simp add: getDateVars_def dateMatch_def)
next
  assume "FindAllStringSubmatch (exiftoolVarRegex e) t = pre @ sm # post"
    "\<not> isl (forEach (exiftoolMatch e) pre)" "length sm < 3"
  from getter_reaches_failure [OF this(1,2), of "Error errInvalidSubmatches"] this(3)
  show "getExifToolVars e t = Inl (Error errInvalidSubmatches)"
    by (simp add: getExifToolVars_def exiftoolMatch_def)
next
  assume "FindAllStringSubmatch (transformVarRegex e) t = pre @ sm # post"
    "\<not> isl (forEach (transformMatch e) pre)" "length sm < 5"
  from getter_reaches_failure [OF this(1,2), of "Error errInvalidSubmatches"] this(3)
  show "getTransformVars e t = Inl (Error errInvalidSubmatches)"
    by (simp add: getTransformVars_def transformMatch_def)
next
  assume "FindAllStringSubmatch (csvVarRegex e) t = pre @ sm # post"
    "\<not> isl (forEach (csvMatch e) pre)" "length sm < 3"
  from getter_reaches_failure [OF this(1,2), of "Error errInvalidSubmatches"] this(3)
  show "getCSVVars e t = Inl (Error errInvalidSubmatches)"
    by (simp add: getCSVVars_def csvMatch_def)
next
  assume "FindAllStringSubmatch (indexVarRegex e) t = pre @ sm # post"
    "\<not> isl (indexLoop e 0 pre \<lparr>index_matches = [], capturVarIndex = [], index_offset = []\<rparr>)"
    "length sm < 8"
  then show "getIndexingVars e t = Inl (Panic errInvalidSubmatches)"
    by (rule index_short)
next
  assume "FindAllStringSubmatch (exifVarRegex e) t = pre @ sm # post"
    "\<not> isl (forEach (exifMatch e) pre)" "length sm = 4" "\<not> isl (Compile e (sm ! 0))"
  from getter_reaches_failure [OF this(1,2), of "IndexOutOfRange 4 4"] this(3,4)
  show "getExifVars e t = Inl (IndexOutOfRange 4 4)"
    by (cases "Compile e (sm ! 0)") (simp_all add: getExifVars_def exifMatch_def)
next
  assume "FindAllStringSubmatch (id3VarRegex e) t = pre @ sm # post"
    "\<not> isl (forEach (id3Match e) pre)" "length sm = 2" "\<not> isl (Compile e (sm ! 0))"
  from getter_reaches_failure [OF this(1,2), of "IndexOutOfRange 2 2"] this(3,4)
  show "getID3Vars e t = Inl (IndexOutOfRange 2 2)"
    by (cases "Compile e (sm ! 0)") (simp_all add: getID3Vars_def id3Match_def)
qed

lemma shortEnv_submatches:
  "FindAllStringSubmatch (tokenLexicon ''{x}'' []) ''{x}'' = [] @ [''{x}''] # []"
  by (simp add: FindAllStringSubmatch_def tokenLexicon_def matchText_def)

lemma short_submatch_outcome_example:
  "getFilenameVars shortEnv ''{x}'' = Inl (Error errInvalidSubmatches) \<and>
   getExtVars shortEnv ''{x}'' = Inl (Error errInvalidSubmatches) \<and>
   getParentDirVars shortEnv ''{x}'' = Inl (Error errInvalidSubmatches) \<and>
   getExifVars shortEnv ''{x}'' = Inl (Error errInvalidSubmatches) \<and>
   getID3Vars shortEnv ''{x}'' = Inl (Error errInvalidSubmatches) \<and>
   getHashVars shortEnv ''{x}'' = Inl (Error errInvalidSubmatches) \<and>
   getDateVars shortEnv ''{x}'' = Inl (Error errInvalidSubmatches) \<and>
   getExifToolVars shortEnv ''{x}'' = Inl (Error errInvalidSubmatches) \<and>
   getTransformVars shortEnv ''{x}'' = Inl (Error errInvalidSubmatches) \<and>
   getCSVVars shortEnv ''{x}'' = Inl (Error errInvalidSubmatches) \<and>
   getIndexingVars shortEnv ''{x}'' = Inl (Panic errInvalidSubmatches)"
  using short_submatch_outcome [of shortEnv "''{x}''" "[]" "[''{x}'']" "[]"] shortEnv_submatches
  by (simp add: shortEnv_def plainEnv_def)


text \<open>
  Claim C9.  The range \<open>7-3\<close> is stored as min 3 and max 7 and the single number 5 as
  min 5 and max 5.  The bounds are ordered on their conversions to \<open>float64\<close>: for the
  range \<open>9007199254740993-1\<close> the stored max is 9007199254740992, which is not the
  larger bound.
\<close>

theorem skip_range_float64_rounding:
  "skipLoop [''7-3''] [] = Inr [\<lparr>skipMax = 7, skipMin = 3\<rparr>] \<and>
   skipLoop [''5''] [] = Inr [\<lparr>skipMax = 5, skipMin = 5\<rparr>] \<and>
   skipLoop [''9007199254740993-1''] [] =
     Inr [\<lparr>skipMax = 9007199254740992, skipMin = 1\<rparr>] \<and>
   map index_skip (index_matches (projr (getIndexingVars skipEnv ''{%d<9007199254740993-1>}''))) =
     [[\<lparr>skipMax = 9007199254740992, skipMin = 1\<rparr>]]"
  by code_simp

subsection \<open>Failures, recorded fields and directories\<close>

lemma replaceOne_failure_working:
  "snd (replaceOne e conf vars i c) = Inl f \<longleftrightarrow>
   replaceVariables e conf
     (c\<lparr>Index := int i, Target := replaceString conf (workingName conf c)\<rparr>) vars = Inl f"
  by (auto simp: replaceOne_def workingName_def Let_def split: sum.splits prod.splits)

lemma hasIndexToken_Inr:
  "extractVariables e (Replacement conf) = Inr vars \<Longrightarrow>
   (if length (index_matches (v_index vars)) > 0 then EnforceHierarchicalOrder e ms else ms) =
   linkBatch e conf ms"
  by (simp add: linkBatch_def hasIndexToken_def)

text \<open>
  Claim C5.  A failure of the extraction or of the substitution at any link makes the
  whole chain fail with it, and a failure carries no batch.  The extraction of a link
  failing makes the pass of the link fail.  The substitution failing for the change at
  position \<open>k\<close> of the batch, the changes before it having been made, makes the pass
  fail.  The pass of link \<open>j\<close> failing, the links before it having run, makes
  \<open>handleReplacementChain\<close> fail.  In each case the failure is returned as it is.
\<close>

theorem failure_aborts_chain:
  "(extractVariables e (Replacement conf) = Inl f \<longrightarrow>
      snd (replaceMatches e conf ms) = Inl f) \<and>
   (k < length (linkBatch e conf ms) \<and> \<not> isl (beforeMatch e conf k ms) \<and>
    replaceVariables e conf
      ((linkBatch e conf ms ! k)
         \<lparr>Index := int k,
          Target := replaceString conf (workingName conf (linkBatch e conf ms ! k))\<rparr>)
      (snd (projr (beforeMatch e conf k ms))) = Inl f \<longrightarrow>
      snd (replaceMatches e conf ms) = Inl f) \<and>
   (j < length (ReplacementSlice conf) \<and> \<not> isl (beforeLink e conf j ms) \<and>
    snd (replaceMatches e
           (SetReplacement (fst (projr (beforeLink e conf j ms))) (ReplacementSlice conf ! j))
           (snd (projr (beforeLink e conf j ms)))) = Inl f \<longrightarrow>
      snd (handleReplacementChain e conf ms) = Inl f)"
proof (intro conjI impI; (elim conjE)?)
  assume "extractVariables e (Replacement conf) = Inl f"
  then show "snd (replaceMatches e conf ms) = Inl f" by (simp add: snd_replaceMatches)
next
  let ?b = "linkBatch e conf ms"
  assume k: "k < length ?b" and ok: "\<not> isl (beforeMatch e conf k ms)"
    and bad: "replaceVariables e conf
      ((?b ! k)\<lparr>Index := int k, Target := replaceString conf (workingName conf (?b ! k))\<rparr>)
      (snd (projr (beforeMatch e conf k ms))) = Inl f"
  from ok obtain vars where vars: "extractVariables e (Replacement conf) = Inr vars"
    by (cases "extractVariables e (Replacement conf)") (simp_all add: beforeMatch_def)
  with ok obtain out vars' where
    pre: "snd (replaceLoop e conf vars 0 (take k ?b)) = Inr (out, vars')"
    by (cases "snd (replaceLoop e conf vars 0 (take k ?b))") (auto simp: beforeMatch_def)
  with vars have v': "snd (projr (beforeMatch e conf k ms)) = vars'"
    by (simp add: beforeMatch_def)
  from bad v' have "snd (replaceOne e conf vars' k (?b ! k)) = Inl f"
    by (simp add: replaceOne_failure_working)
  with k have one: "snd (replaceOne e conf vars' (0 + length (take k ?b)) (?b ! k)) = Inl f"
    by simp
  from k have "?b = take k ?b @ ?b ! k # drop (Suc k) ?b" by (simp add: id_take_nth_drop)
  with replaceLoop_reaches_failure [OF pre one, of "drop (Suc k) ?b"]
  have "snd (replaceLoop e conf vars 0 ?b) = Inl f" by simp
  with vars show "snd (replaceMatches e conf ms) = Inl f"
    by (simp add: snd_replaceMatches linkBatch_def hasIndexToken_def)
next
  let ?rs = "ReplacementSlice conf"
  assume j: "j < length ?rs" and ok: "\<not> isl (beforeLink e conf j ms)"
    and bad: "snd (replaceMatches e
           (SetReplacement (fst (projr (beforeLink e conf j ms))) (?rs ! j))
           (snd (projr (beforeLink e conf j ms)))) = Inl f"
  from ok obtain confk msk where
    pre: "snd (chainLoop e (length ?rs) conf 0 (take j ?rs) ms) = Inr (confk, msk)"
    by (cases "snd (chainLoop e (length ?rs) conf 0 (take j ?rs) ms)")
      (auto simp: beforeLink_def)
  with bad have one: "snd (replaceMatches e (SetReplacement confk (?rs ! j)) msk) = Inl f"
    by (simp add: beforeLink_def)
  from j have split: "?rs = take j ?rs @ ?rs ! j # drop (Suc j) ?rs"
    by (simp add: id_take_nth_drop)
  from j have "0 + length (take j ?rs) + 1 + length (drop (Suc j) ?rs) = length ?rs" by simp
  from chainLoop_reaches_failure [OF this pre one] split
  show "snd (handleReplacementChain e conf ms) = Inl f"
    by (simp add: handleReplacementChain_def)
qed

lemma replaceOne_fields:
  assumes "snd (replaceOne e conf v i c) = Inr (c', v')"
  shows "Index c' = int i" "Status c' = OK"
    "RelTargetPath c' = Join [BaseDir c', Target c']"
    "\<exists>raw. Target c' = TrimSpace (Clean raw)"
    "Source c' = Source c" "BaseDir c' = BaseDir c" "IsDir c' = IsDir c"
  using assms unfolding replaceOne_result by auto

text \<open>
  After a successful link pass, for the change at every position \<open>k\<close> of the batch: its
  index is \<open>k\<close>, its status is OK, its relative target path is the join of its base
  directory and its target, and its target is the trimmed form of a cleaned path, so that
  trimming leaves it as it is.
\<close>

lemma link_pass_fields:
  assumes "snd (replaceMatches e conf ms) = Inr out" and "k < length out"
  shows "Index (out ! k) = int k \<and> Status (out ! k) = OK \<and>
         RelTargetPath (out ! k) = Join [BaseDir (out ! k), Target (out ! k)] \<and>
         (\<exists>raw. Target (out ! k) = TrimSpace (Clean raw)) \<and>
         TrimSpace (Target (out ! k)) = Target (out ! k)"
proof -
  from assms(1) obtain vars vars' where
    loop: "snd (replaceLoop e conf vars 0
             (if length (index_matches (v_index vars)) > 0 then EnforceHierarchicalOrder e ms
              else ms)) = Inr (out, vars')"
    unfolding replaceMatches_Inr by blast
  from replaceLoop_elements [OF loop] assms(2) obtain c v v' where
    one: "snd (replaceOne e conf v (0 + k) c) = Inr (out ! k, v')"
    by auto
  from replaceOne_fields(4) [OF one] obtain raw where raw: "Target (out ! k) = TrimSpace (Clean raw)"
    by blast
  then have "TrimSpace (Target (out ! k)) = Target (out ! k)" by (simp add: TrimSpace_idem)
  with replaceOne_fields(1-3) [OF one] raw show ?thesis by auto
qed

text \<open>
  Claim C10.  For a change whose directory flag is set the search pattern is applied to
  the whole source, dot-suffix included, and the target is the cleaned and trimmed result
  of the substitution with nothing attached: the pass does not depend on the
  extension-preserving mode, and turning the mode on or off gives the same result whenever
  the substituter itself does not look at the mode.
\<close>

theorem directory_names_keep_extension:
  assumes "IsDir c"
  shows "workingName conf c = Source c \<and>
    snd (replaceOne e conf vars i c) =
      (case substitute e conf
              (c\<lparr>Index := int i,
                 Target := regexReplace (SearchRegex conf) (Source c) (Replacement conf)
                   (ReplaceLimit conf)\<rparr>) vars of
         Inl f \<Rightarrow> Inl f
       | Inr (name, vars') \<Rightarrow>
           Inr (c\<lparr>Index := int i, Target := TrimSpace (Clean name), Status := OK,
                  RelTargetPath := Join [BaseDir c, TrimSpace (Clean name)]\<rparr>, vars')) \<and>
    ((\<forall>b. substitute e (conf\<lparr>IgnoreExt := b\<rparr>) = substitute e conf) \<longrightarrow>
       snd (replaceOne e (conf\<lparr>IgnoreExt := True\<rparr>) vars i c) =
       snd (replaceOne e (conf\<lparr>IgnoreExt := False\<rparr>) vars i c))"
proof (intro conjI impI)
  show "workingName conf c = Source c" using assms by (simp add: workingName_def)
  show formula: "snd (replaceOne e conf vars i c) =
      (case substitute e conf
              (c\<lparr>Index := int i,
                 Target := regexReplace (SearchRegex conf) (Source c) (Replacement conf)
                   (ReplaceLimit conf)\<rparr>) vars of
         Inl f \<Rightarrow> Inl f
       | Inr (name, vars') \<Rightarrow>
           Inr (c\<lparr>Index := int i, Target := TrimSpace (Clean name), Status := OK,
                  RelTargetPath := Join [BaseDir c, TrimSpace (Clean name)]\<rparr>, vars'))"
    for conf
    using assms
    by (simp add: replaceOne_def replaceVariables_def replaceString_def Let_def
        split: sum.splits prod.splits)
  assume "\<forall>b. substitute e (conf\<lparr>IgnoreExt := b\<rparr>) = substitute e conf"
  then have "substitute e (conf\<lparr>IgnoreExt := True\<rparr>) = substitute e (conf\<lparr>IgnoreExt := False\<rparr>)"
    by simp
  then show "snd (replaceOne e (conf\<lparr>IgnoreExt := True\<rparr>) vars i c) =
       snd (replaceOne e (conf\<lparr>IgnoreExt := False\<rparr>) vars i c)"
    by (simp add: formula)
qed

lemma sum_is_Inl: "isl r \<Longrightarrow> projl r = f \<Longrightarrow> r = Inl f"
  by (cases r) simp_all

lemma sum_is_Inr: "\<not> isl r \<Longrightarrow> projr r = x \<Longrightarrow> r = Inr x"
  by (cases r) simp_all

theorem failure_aborts_chain_witness:
  "snd (replaceMatches (parentDirEnv [''a''])
          ((aConfig ''a'' [''{2xp}''] 0 False)\<lparr>Replacement := ''{2xp}''\<rparr>)
          [aFile ''d'' ''a'']) = Inl (Error (ErrSyntax ''2x'')) \<and>
   snd (replaceMatches (providerEnv [''a''] ''bad'')
          ((aConfig ''a'' [''b''] 0 False)\<lparr>Replacement := ''b''\<rparr>)
          [aFile ''d'' ''a1'', aFile ''d'' ''bad'', aFile ''d'' ''a3'']) =
     Inl (Error (ErrCollaborator ''no metadata'')) \<and>
   snd (handleReplacementChain (providerEnv [''a'', ''b''] ''bad'')
          (aConfig ''a'' [''bad'', ''c''] 0 False) [aFile ''d'' ''a'']) =
     Inl (Error (ErrCollaborator ''no metadata''))"
proof -
  let ?e1 = "parentDirEnv [''a'']"
  let ?c1 = "(aConfig ''a'' [''{2xp}''] 0 False)\<lparr>Replacement := ''{2xp}''\<rparr>"
  let ?e2 = "providerEnv [''a''] ''bad''"
  let ?c2 = "(aConfig ''a'' [''b''] 0 False)\<lparr>Replacement := ''b''\<rparr>"
  let ?m2 = "[aFile ''d'' ''a1'', aFile ''d'' ''bad'', aFile ''d'' ''a3'']"
  let ?e3 = "providerEnv [''a'', ''b''] ''bad''"
  let ?c3 = "aConfig ''a'' [''bad'', ''c''] 0 False"
  let ?m3 = "[aFile ''d'' ''a'']"
  have "isl (extractVariables ?e1 (Replacement ?c1))"
    "projl (extractVariables ?e1 (Replacement ?c1)) = Error (ErrSyntax ''2x'')"
    by code_simp+
  then have h1: "extractVariables ?e1 (Replacement ?c1) = Inl (Error (ErrSyntax ''2x''))"
    by (rule sum_is_Inl)
  have h2: "1 < length (linkBatch ?e2 ?c2 ?m2)" "\<not> isl (beforeMatch ?e2 ?c2 1 ?m2)"
    by code_simp+
  let ?rv = "replaceVariables ?e2 ?c2
      ((linkBatch ?e2 ?c2 ?m2 ! 1)
         \<lparr>Index := int 1,
          Target := replaceString ?c2 (workingName ?c2 (linkBatch ?e2 ?c2 ?m2 ! 1))\<rparr>)
      (snd (projr (beforeMatch ?e2 ?c2 1 ?m2)))"
  have "isl ?rv" "projl ?rv = Error (ErrCollaborator ''no metadata'')"
    by code_simp+
  then have h2': "?rv = Inl (Error (ErrCollaborator ''no metadata''))"
    by (rule sum_is_Inl)
  have h3: "1 < length (ReplacementSlice ?c3)" "\<not> isl (beforeLink ?e3 ?c3 1 ?m3)"
    by code_simp+
  let ?rm = "snd (replaceMatches ?e3
           (SetReplacement (fst (projr (beforeLink ?e3 ?c3 1 ?m3))) (ReplacementSlice ?c3 ! 1))
           (snd (projr (beforeLink ?e3 ?c3 1 ?m3))))"
  have "isl ?rm" "projl ?rm = Error (ErrCollaborator ''no metadata'')"
    by code_simp+
  then have h3': "?rm = Inl (Error (ErrCollaborator ''no metadata''))"
    by (rule sum_is_Inl)
  from failure_aborts_chain [of ?e1 ?c1 "Error (ErrSyntax ''2x'')" "[aFile ''d'' ''a'']"] h1
  have a: "snd (replaceMatches ?e1 ?c1 [aFile ''d'' ''a'']) = Inl (Error (ErrSyntax ''2x''))"
    by blast
  from failure_aborts_chain [of ?e2 ?c2 "Error (ErrCollaborator ''no metadata'')" ?m2 1]
    h2 h2'
  have b: "snd (replaceMatches ?e2 ?c2 ?m2) = Inl (Error (ErrCollaborator ''no metadata''))"
    by blast
  from failure_aborts_chain [of ?e3 ?c3 "Error (ErrCollaborator ''no metadata'')" ?m3 _ 1]
    h3 h3'
  have c: "snd (handleReplacementChain ?e3 ?c3 ?m3) =
      Inl (Error (ErrCollaborator ''no metadata''))"
    by blast
  from a b c show ?thesis by blast
qed

lemma link_pass_fields_example:
  "Index ([\<lparr>Index = 0, Source = ''a.txt'', Target = ''x.txt'', IsDir = False, Status = OK,
             RelTargetPath = ''d/x.txt'', BaseDir = ''d''\<rparr>,
           \<lparr>Index = 1, Source = '' b a '', Target = ''b x'', IsDir = False, Status = OK,
             RelTargetPath = ''d/e/b x'', BaseDir = ''d/e''\<rparr>] ! 1) = 1 \<and>
   snd (replaceMatches (plainEnv [''a''])
          ((aConfig ''a'' [''x''] 0 True)\<lparr>Replacement := ''x''\<rparr>)
          [aFile ''d'' ''a.txt'', aFile ''d/e'' '' b a '']) =
     Inr [\<lparr>Index = 0, Source = ''a.txt'', Target = ''x.txt'', IsDir = False, Status = OK,
            RelTargetPath = ''d/x.txt'', BaseDir = ''d''\<rparr>,
          \<lparr>Index = 1, Source = '' b a '', Target = ''b x'', IsDir = False, Status = OK,
            RelTargetPath = ''d/e/b x'', BaseDir = ''d/e''\<rparr>] \<and>
   TrimSpace ''b x'' = ''b x'' \<and> Join [''d/e'', ''b x''] = ''d/e/b x''"
proof -
  let ?out = "[\<lparr>Index = 0, Source = ''a.txt'', Target = ''x.txt'', IsDir = False, Status = OK,
             RelTargetPath = ''d/x.txt'', BaseDir = ''d''\<rparr>,
           \<lparr>Index = 1, Source = '' b a '', Target = ''b x'', IsDir = False, Status = OK,
             RelTargetPath = ''d/e/b x'', BaseDir = ''d/e''\<rparr>]"
  have h: "snd (replaceMatches (plainEnv [''a''])
          ((aConfig ''a'' [''x''] 0 True)\<lparr>Replacement := ''x''\<rparr>)
          [aFile ''d'' ''a.txt'', aFile ''d/e'' '' b a '']) = Inr ?out"
    by code_simp
  have k: "1 < length ?out" by simp
  from link_pass_fields [OF h k] h show ?thesis by simp
qed

text \<open>
  Claim C8.  The target is cleaned first and trimmed last, so what is stored is trimmed
  but need not be path-normalized.  The file a in directory d with the pattern a and the
  replacement \<open>b/ \<close>, a directory separator followed by a space: the cleaned name
  \<open>b/ \<close> is trimmed to \<open>b/\<close> and stored, and the normal form of \<open>b/\<close> is b.  The
  index, the status and the relative target path are as the claim says.
\<close>

theorem target_trimmed_after_clean:
  "map Target (snd (projr (snd (handleReplacementChain (plainEnv [''a''])
      (aConfig ''a'' [''b/ ''] 0 False) [aFile ''d'' ''a''])))) = [''b/''] \<and>
   Clean ''b/ '' = ''b/ '' \<and> TrimSpace ''b/ '' = ''b/'' \<and>
   Clean ''b/'' = ''b'' \<and> TrimSpace ''b/'' = ''b/'' \<and>
   map Index (snd (projr (snd (handleReplacementChain (plainEnv [''a''])
      (aConfig ''a'' [''b/ ''] 0 False) [aFile ''d'' ''a''])))) = [0] \<and>
   map Status (snd (projr (snd (handleReplacementChain (plainEnv [''a''])
      (aConfig ''a'' [''b/ ''] 0 False) [aFile ''d'' ''a''])))) = [OK] \<and>
   map RelTargetPath (snd (projr (snd (handleReplacementChain (plainEnv [''a''])
      (aConfig ''a'' [''b/ ''] 0 False) [aFile ''d'' ''a''])))) = [Join [''d'', ''b/'']]"
  by code_simp

theorem directory_names_keep_extension_witness:
  "IsDir (aDir ''d'' ''v1.0'') \<and>
   workingName ((aConfig ''.0'' [''_final''] 0 True)\<lparr>Replacement := ''_final''\<rparr>)
     (aDir ''d'' ''v1.0'') = ''v1.0'' \<and>
   map_sum id fst
     (snd (replaceOne (plainEnv [''.0''])
             ((aConfig ''.0'' [''_final''] 0 True)\<lparr>Replacement := ''_final''\<rparr>)
             noVariables 0 (aDir ''d'' ''v1.0''))) =
     Inr \<lparr>Index = 0, Source = ''v1.0'', Target = ''v1_final'', IsDir = True, Status = OK,
          RelTargetPath = ''d/v1_final'', BaseDir = ''d''\<rparr> \<and>
   snd (replaceOne (plainEnv [''.0''])
          ((aConfig ''.0'' [''_final''] 0 True)\<lparr>Replacement := ''_final'', IgnoreExt := True\<rparr>)
          noVariables 0 (aDir ''d'' ''v1.0'')) =
   snd (replaceOne (plainEnv [''.0''])
          ((aConfig ''.0'' [''_final''] 0 True)\<lparr>Replacement := ''_final'', IgnoreExt := False\<rparr>)
          noVariables 0 (aDir ''d'' ''v1.0''))"
proof -
  let ?c = "(aConfig ''.0'' [''_final''] 0 True)\<lparr>Replacement := ''_final''\<rparr>"
  have d: "IsDir (aDir ''d'' ''v1.0'')" by (simp add: aDir_def)
  have s: "\<forall>b. substitute (plainEnv [''.0'']) (?c\<lparr>IgnoreExt := b\<rparr>) =
      substitute (plainEnv [''.0'']) ?c"
    by (simp add: plainEnv_def)
  have v: "map_sum id fst
     (snd (replaceOne (plainEnv [''.0'']) ?c noVariables 0 (aDir ''d'' ''v1.0''))) =
     Inr \<lparr>Index = 0, Source = ''v1.0'', Target = ''v1_final'', IsDir = True, Status = OK,
          RelTargetPath = ''d/v1_final'', BaseDir = ''d''\<rparr>"
    by code_simp
  have w: "Source (aDir ''d'' ''v1.0'') = ''v1.0''" by (simp add: aDir_def aFile_def)
  from directory_names_keep_extension [OF d, of ?c "plainEnv [''.0'']" noVariables 0] s d v w
  show ?thesis by simp
qed

end
